(* ===== verification/Prelude.thy ===== *)
theory Prelude
  imports Main "HOL-Library.Word" "HOL-Library.Sublist"
begin

text \<open>
  Shared vocabulary of the GameDiscBurner development: the Python string built-ins
  that \<open>src/main.py\<close> calls (\<open>str.lower\<close>, \<open>str.endswith\<close>, the operator
  \<open>in\<close> on strings, \<open>str.isspace\<close>), written as executable HOL functions over
  \<open>string\<close> (a list of 8-bit characters, read as Latin-1 code points), together with
  the lemmas that relate them to the library's \<open>suffix\<close>, \<open>prefix\<close> and
  \<open>sublist\<close>. The collection \<open>py_simps\<close> gathers the equations that evaluate
  these built-ins on concrete strings; component proofs use it with \<open>simp add:\<close>.
\<close>

named_theorems py_simps "equations evaluating the modelled Python string built-ins"

type_synonym path = string

subsection \<open>Character classes\<close>

definition is_ascii_upper :: "char \<Rightarrow> bool" where
  "is_ascii_upper c \<longleftrightarrow> 65 \<le> (of_char c :: nat) \<and> (of_char c :: nat) \<le> 90"

definition is_ascii_lower :: "char \<Rightarrow> bool" where
  "is_ascii_lower c \<longleftrightarrow> 97 \<le> (of_char c :: nat) \<and> (of_char c :: nat) \<le> 122"

definition is_ascii_digit :: "char \<Rightarrow> bool" where
  "is_ascii_digit c \<longleftrightarrow> 48 \<le> (of_char c :: nat) \<and> (of_char c :: nat) \<le> 57"

definition is_ascii_alpha :: "char \<Rightarrow> bool" where
  "is_ascii_alpha c \<longleftrightarrow> is_ascii_upper c \<or> is_ascii_lower c"

text \<open>The regular-expression class \<open>[a-zA-Z0-9]\<close>.\<close>

definition is_ascii_alnum :: "char \<Rightarrow> bool" where
  "is_ascii_alnum c \<longleftrightarrow> is_ascii_alpha c \<or> is_ascii_digit c"

text \<open>
  \<open>str.isspace\<close> (and the class \<open>\s\<close> of a \<open>str\<close> pattern) on the Latin-1 range:
  tab to carriage return, the four information separators, space, NEL and NBSP.
\<close>

definition py_isspace :: "char \<Rightarrow> bool" where
  "py_isspace c \<longleftrightarrow>
     (let n = (of_char c :: nat) in
      (9 \<le> n \<and> n \<le> 13) \<or> (28 \<le> n \<and> n \<le> 32) \<or> n = 133 \<or> n = 160)"

lemmas char_class_defs [py_simps] =
  is_ascii_upper_def is_ascii_lower_def is_ascii_digit_def is_ascii_alpha_def
  is_ascii_alnum_def py_isspace_def

subsection \<open>Case mapping\<close>

text \<open>
  \<open>str.lower\<close> on Latin-1: ASCII capitals and the Latin-1 capitals
  U+00C0..U+00DE except the multiplication sign U+00D7 move down by 32.
\<close>

definition py_lower_char :: "char \<Rightarrow> char" where
  "py_lower_char c =
     (let n = (of_char c :: nat) in
      if (65 \<le> n \<and> n \<le> 90) \<or> (192 \<le> n \<and> n \<le> 222 \<and> n \<noteq> 215)
      then char_of (n + 32) else c)"

definition py_lower :: "string \<Rightarrow> string" where
  "py_lower s = map py_lower_char s"

text \<open>Upper and lower case of an ASCII letter, as \<open>str.title\<close> applies them.\<close>

definition ascii_upper_char :: "char \<Rightarrow> char" where
  "ascii_upper_char c = (if is_ascii_lower c then char_of ((of_char c :: nat) - 32) else c)"

definition ascii_lower_char :: "char \<Rightarrow> char" where
  "ascii_lower_char c = (if is_ascii_upper c then char_of ((of_char c :: nat) + 32) else c)"

declare py_lower_char_def [py_simps] py_lower_def [py_simps]
  ascii_upper_char_def [py_simps] ascii_lower_char_def [py_simps]

subsection \<open>Substring tests\<close>

text \<open>\<open>s.endswith(suf)\<close>.\<close>

definition py_endswith :: "string \<Rightarrow> string \<Rightarrow> bool" where
  "py_endswith s suf \<longleftrightarrow> length suf \<le> length s \<and> drop (length s - length suf) s = suf"

text \<open>\<open>t in s\<close> for strings: \<open>t\<close> occurs at some position of \<open>s\<close>.\<close>

fun py_in :: "string \<Rightarrow> string \<Rightarrow> bool" where
  "py_in t [] \<longleftrightarrow> t = []"
| "py_in t (c # cs) \<longleftrightarrow> prefix t (c # cs) \<or> py_in t cs"

declare py_endswith_def [py_simps] Let_def [py_simps]

subsection \<open>Generic lemmas\<close>

lemma py_endswith_suffix: "py_endswith s suf \<longleftrightarrow> suffix suf s"
proof
  assume "py_endswith s suf"
  then have "s = take (length s - length suf) s @ suf"
    by (metis append_take_drop_id py_endswith_def)
  then show "suffix suf s" unfolding suffix_def by blast
next
  assume "suffix suf s"
  then obtain zs where "s = zs @ suf" by (auto simp: suffix_def)
  then show "py_endswith s suf" by (simp add: py_endswith_def)
qed

lemma py_endswith_append [simp]: "py_endswith (xs @ suf) suf"
  by (simp add: py_endswith_def)

lemma py_in_sublist: "py_in t s \<longleftrightarrow> sublist t s"
  by (induction s) (auto simp: sublist_Cons_right)

lemma py_in_Nil [simp]: "py_in [] s"
  by (simp add: py_in_sublist)

text \<open>Comparing a computed character with a literal, in both orientations.\<close>

lemma char_of_eq_lit [py_simps]: "char_of n = c \<longleftrightarrow> take_bit 8 n = (of_char c :: nat)"
  by (rule char_of_eq_iff)

lemma lit_eq_char_of [py_simps]: "c = char_of n \<longleftrightarrow> take_bit 8 n = (of_char c :: nat)"
  by (subst eq_commute) (rule char_of_eq_iff)

lemma py_lower_char_idem [simp]: "py_lower_char (py_lower_char c) = py_lower_char c"
  by (auto simp: py_lower_char_def Let_def)

lemma py_lower_idem [simp]: "py_lower (py_lower s) = py_lower s"
  by (simp add: py_lower_def)

lemma length_py_lower [simp]: "length (py_lower s) = length s"
  by (simp add: py_lower_def)

end
