(* ===== verification/Drives.thy ===== *)
theory Drives
  imports Prelude
begin

unbundle bit_operations_syntax

text \<open>
  The drive enumerator, \<open>GameDiscBurner.find_dvd_drives\<close> (src/main.py, lines 258-268).
  \<open>windll.kernel32.GetLogicalDrives()\<close> returns a 32-bit DWORD; ctypes' default
  result type is \<open>c_int\<close>, so Python sees its two's-complement reading \<open>sint\<close>. The
  loop walks the letters A..Z, testing bit 0 of the Python integer and shifting it right
  by one (\<open>bitmask >>= 1\<close>, an arithmetic shift on Python integers); for a set bit it
  asks \<open>GetDriveTypeW\<close> for the type of the root "X:/" and keeps "X:" when the type is
  \<open>DRIVE_CDROM\<close> (5). The operating system's answers are parameters: the mask as a
  \<open>32 word\<close>, \<open>GetDriveTypeW\<close> as a function from root paths to type codes.
\<close>

type_synonym drive_type_query = "string \<Rightarrow> int"

definition DRIVE_CDROM :: int where
  "DRIVE_CDROM = 5"

definition drive_letters :: string where
  "drive_letters = ''ABCDEFGHIJKLMNOPQRSTUVWXYZ''"

text \<open>The loop, with the list \<open>drives\<close> it appends to as accumulator.\<close>

fun scan_drives :: "drive_type_query \<Rightarrow> string \<Rightarrow> int \<Rightarrow> string list \<Rightarrow> string list" where
  "scan_drives get_drive_type [] bitmask drives = drives"
| "scan_drives get_drive_type (letter # letters) bitmask drives =
     scan_drives get_drive_type letters (drop_bit 1 bitmask)
       (if bitmask AND 1 \<noteq> 0 \<and> get_drive_type [letter, CHR '':'', CHR ''/''] = DRIVE_CDROM
        then drives @ [[letter, CHR '':'']] else drives)"

definition find_dvd_drives :: "32 word \<Rightarrow> drive_type_query \<Rightarrow> string list" where
  "find_dvd_drives logical_drives get_drive_type =
     scan_drives get_drive_type drive_letters (sint logical_drives) []"

text \<open>
  The reference: the letters whose bit is set in the DWORD and whose root is an optical
  drive, in alphabetical order.
\<close>

definition optical_letter :: "32 word \<Rightarrow> drive_type_query \<Rightarrow> nat \<Rightarrow> bool" where
  "optical_letter w get_drive_type i \<longleftrightarrow>
     bit w i \<and> get_drive_type [drive_letters ! i, CHR '':'', CHR ''/''] = DRIVE_CDROM"

definition dvd_drives_spec :: "32 word \<Rightarrow> drive_type_query \<Rightarrow> string list" where
  "dvd_drives_spec w get_drive_type =
     map (\<lambda>i. [drive_letters ! i, CHR '':''])
       (filter (optical_letter w get_drive_type) [0..<26])"

subsection \<open>The loop against the filter\<close>

lemma int_and_one_bit0: "(k :: int) AND 1 \<noteq> 0 \<longleftrightarrow> bit k 0"
  by (simp add: and_one_eq bit_0 odd_iff_mod_2_eq_one)

lemma filter_upt_Suc_shift:
  "filter P [0..<Suc n] = (if P 0 then [0] else []) @ map Suc (filter (P \<circ> Suc) [0..<n])"
  by (simp add: upt_conv_Cons map_Suc_upt [symmetric] filter_map del: upt_Suc)

lemma scan_drives_filter:
  "scan_drives gdt letters m acc =
     acc @ map (\<lambda>i. [letters ! i, CHR '':''])
       (filter (\<lambda>i. bit m i \<and> gdt [letters ! i, CHR '':'', CHR ''/''] = DRIVE_CDROM)
          [0..<length letters])"
proof (induction letters arbitrary: m acc)
  case Nil
  then show ?case by simp
next
  case (Cons l ls)
  show ?case
    using int_and_one_bit0 [of m]
    by (simp add: Cons.IH filter_upt_Suc_shift bit_drop_bit_eq comp_def del: upt_Suc)
qed

lemma bit_sint_low: "i < 32 \<Longrightarrow> bit (sint (w :: 32 word)) i \<longleftrightarrow> bit w i"
  by (simp add: bit_sint_iff min_def)

lemma distinct_drive_letters: "distinct drive_letters"
  by (simp add: drive_letters_def)

lemma length_drive_letters: "length drive_letters = 26"
  by (simp add: drive_letters_def)

lemma drive_name_inj: "inj_on (\<lambda>i. [drive_letters ! i, CHR '':'']) {..<26}"
  using distinct_drive_letters length_drive_letters
  by (auto intro!: inj_onI simp: nth_eq_iff_index_eq)

lemma find_dvd_drives_spec:
  "find_dvd_drives w gdt = dvd_drives_spec w gdt"
proof -
  have len: "length drive_letters = 26" by (simp add: drive_letters_def)
  have "filter (\<lambda>i. bit (sint w) i \<and> gdt [drive_letters ! i, CHR '':'', CHR ''/''] = DRIVE_CDROM)
          [0..<26] = filter (optical_letter w gdt) [0..<26]"
    by (rule filter_cong) (auto simp: bit_sint_low optical_letter_def)
  then show ?thesis
    unfolding find_dvd_drives_def dvd_drives_spec_def scan_drives_filter len
    by simp
qed

lemma find_dvd_drives_names:
  "d \<in> set (find_dvd_drives w gdt) \<Longrightarrow> \<exists>i < 26. d = [drive_letters ! i, CHR '':'']"
  by (auto simp: find_dvd_drives_spec dvd_drives_spec_def)

subsection \<open>Properties\<close>

text \<open>
  C20. The loop over the shifted signed mask computes exactly the reference: the drive
  names of the letters whose bit is set in the DWORD and whose root reports
  \<open>DRIVE_CDROM\<close>, in alphabetical order; so its elements are exactly the names "X:" of
  those letters.
\<close>

theorem find_dvd_drives_eq_spec:
  "find_dvd_drives w gdt = dvd_drives_spec w gdt \<and>
   set (find_dvd_drives w gdt) =
     {[drive_letters ! i, CHR '':''] | i. i < 26 \<and> optical_letter w gdt i}"
  by (auto simp: find_dvd_drives_spec dvd_drives_spec_def)

text \<open>
  C21. The result has at most 26 entries, no duplicates, and lists drives in
  alphabetical order: it is a subsequence of "A:", "B:", ..., "Z:".
\<close>

theorem find_dvd_drives_ordered:
  "length (find_dvd_drives w gdt) \<le> 26 \<and> distinct (find_dvd_drives w gdt) \<and>
   subseq (find_dvd_drives w gdt) (map (\<lambda>l. [l, CHR '':'']) drive_letters)"
proof -
  let ?f = "\<lambda>i. [drive_letters ! i, CHR '':'']"
  let ?xs = "filter (optical_letter w gdt) [0..<26]"
  have len: "length (map ?f ?xs) \<le> 26"
    using length_filter_le [of "optical_letter w gdt" "[0..<26]"] by simp
  have dist: "distinct (map ?f ?xs)"
    using drive_name_inj by (auto simp: distinct_map intro: inj_on_subset)
  have "subseq (map ?f ?xs) (map ?f [0..<26])"
    by (rule subseq_map) (rule subseq_filter_left)
  also have "map ?f [0..<26] = map (\<lambda>l. [l, CHR '':'']) drive_letters"
    by (rule map_upt_eqI) (simp_all add: length_drive_letters)
  finally show ?thesis
    using len dist by (simp add: find_dvd_drives_spec dvd_drives_spec_def)
qed

text \<open>
  C26. Only the low 26 bits of the DWORD matter: bits 26 to 31, the sign bit that the
  \<open>c_int\<close> result type turns into a negative Python integer included, never change the
  result.
\<close>

theorem find_dvd_drives_high_bits:
  "find_dvd_drives w gdt = find_dvd_drives (w AND mask 26) gdt"
proof -
  have "filter (optical_letter w gdt) [0..<26] = filter (optical_letter (w AND mask 26) gdt) [0..<26]"
    by (rule filter_cong) (auto simp: optical_letter_def bit_and_iff bit_mask_iff)
  then show ?thesis by (simp add: find_dvd_drives_spec dvd_drives_spec_def)
qed

text \<open>
  C27. With no optical drive among the present letters the result is the empty list (not
  an error), whatever the mask.
\<close>

theorem find_dvd_drives_no_optical:
  "(\<forall>l. gdt [l, CHR '':'', CHR ''/''] \<noteq> DRIVE_CDROM) \<Longrightarrow> find_dvd_drives w gdt = []"
  by (simp add: find_dvd_drives_spec dvd_drives_spec_def optical_letter_def filter_False)

theorem find_dvd_drives_no_optical_witness:
  "(\<forall>l. (\<lambda>r :: string. 3 :: int) [l, CHR '':'', CHR ''/''] \<noteq> DRIVE_CDROM) \<and>
   find_dvd_drives 0xFFFFFFFF (\<lambda>r. 3) = []"
  using find_dvd_drives_no_optical [where gdt = "\<lambda>r. 3" and w = "0xFFFFFFFF"]
  by (simp add: DRIVE_CDROM_def)

end
