(* ===== verification/Classifier.thy ===== *)
theory Classifier
  imports Prelude
begin

text \<open>
  The console classifier, \<open>GameDiscBurner.detect_console\<close> (src/main.py, lines
  198-217). The source returns one of the strings "PS1", "PS2", "Wii", "Xbox 360",
  "PC", "PS3", "PS4", "PS5" or "Unknown"; here the labels are the constructors of
  \<open>console\<close>, and \<open>console_name\<close> gives back the string. The label "Xbox" is not
  produced by the classifier but is compared against in \<open>apply_payload_if_needed\<close>
  and \<open>show_console_instruction\<close>, so it is a constructor too. The theory also holds
  the ordered rule list the specification (section 9) proposes as the classifier's
  contract, and shows that the code is that list evaluated top to bottom.
\<close>

datatype console = PS1 | PS2 | Wii | Xbox_360 | PC | PS3 | PS4 | PS5 | Xbox | Unknown

fun console_name :: "console \<Rightarrow> string" where
  "console_name PS1 = ''PS1''"
| "console_name PS2 = ''PS2''"
| "console_name Wii = ''Wii''"
| "console_name Xbox_360 = ''Xbox 360''"
| "console_name PC = ''PC''"
| "console_name PS3 = ''PS3''"
| "console_name PS4 = ''PS4''"
| "console_name PS5 = ''PS5''"
| "console_name Xbox = ''Xbox''"
| "console_name Unknown = ''Unknown''"

text \<open>
  The classifier, rule for rule. \<open>file_path_lower.endswith(('.bin', '.cue'))\<close> is the
  disjunction of two suffix tests; \<open>any(x in p for x in [...])\<close> is a disjunction of
  substring tests; when none of the inner branches of the last rule returns, control
  falls through to \<open>return "Unknown"\<close>.
\<close>

definition detect_console :: "path \<Rightarrow> console" where
  "detect_console file_path =
     (let p = py_lower file_path in
      if py_endswith p ''.bin'' \<or> py_endswith p ''.cue'' then PS1
      else if py_in ''ps2'' p \<and> py_endswith p ''.iso'' then PS2
      else if py_in ''wii'' p \<and> py_endswith p ''.iso'' then Wii
      else if py_in ''xbox360'' p \<and> py_endswith p ''.iso'' then Xbox_360
      else if py_endswith p ''.iso'' then PC
      else if (py_in ''ps3'' p \<or> py_in ''ps4'' p \<or> py_in ''ps5'' p) \<and> py_endswith p ''.iso'' then
        (if py_in ''ps3'' p then PS3
         else if py_in ''ps4'' p then PS4
         else if py_in ''ps5'' p then PS5
         else Unknown)
      else Unknown)"

subsection \<open>The classifier as an ordered rule list\<close>

text \<open>
  Specification section 9: an explicit list of (predicate, label) pairs, evaluated top
  to bottom on the lower-cased path, the first match winning and \<open>Unknown\<close> the
  default. \<open>classifier_rules\<close> is the list in the order of section 4.2.
\<close>

type_synonym rule = "(string \<Rightarrow> bool) \<times> console"

fun first_match :: "rule list \<Rightarrow> string \<Rightarrow> console" where
  "first_match [] p = Unknown"
| "first_match ((P, c) # rs) p = (if P p then c else first_match rs p)"

definition classifier_rules :: "rule list" where
  "classifier_rules =
     [(\<lambda>p. py_endswith p ''.bin'' \<or> py_endswith p ''.cue'', PS1),
      (\<lambda>p. py_in ''ps2'' p \<and> py_endswith p ''.iso'', PS2),
      (\<lambda>p. py_in ''wii'' p \<and> py_endswith p ''.iso'', Wii),
      (\<lambda>p. py_in ''xbox360'' p \<and> py_endswith p ''.iso'', Xbox_360),
      (\<lambda>p. py_endswith p ''.iso'', PC),
      (\<lambda>p. py_in ''ps3'' p \<and> py_endswith p ''.iso'', PS3),
      (\<lambda>p. py_in ''ps4'' p \<and> py_endswith p ''.iso'', PS4),
      (\<lambda>p. py_in ''ps5'' p \<and> py_endswith p ''.iso'', PS5)]"

text \<open>The labels a list of rules can produce: its own labels and the default.\<close>

definition rule_labels :: "rule list \<Rightarrow> console set" where
  "rule_labels rs = insert Unknown (snd ` set rs)"

subsection \<open>Lemmas\<close>

lemma console_name_inj: "console_name c = console_name d \<longleftrightarrow> c = d"
  by (cases c; cases d) simp_all

lemma first_match_labels: "first_match rs p \<in> rule_labels rs"
  by (induction rs p rule: first_match.induct) (auto simp: rule_labels_def)

text \<open>
  The ".iso" rule shadows every rule after it: a rule list whose \<open>k\<close>-th rule
  accepts every input that the rules after it accept never reaches those rules.
\<close>

lemma first_match_none:
  "\<forall>(Q, d) \<in> set rs. \<not> Q p \<Longrightarrow> first_match rs p = Unknown"
  by (induction rs) auto

lemma first_match_shadow:
  assumes "\<forall>(Q, d) \<in> set rs. \<forall>p. Q p \<longrightarrow> P p"
  shows "first_match (xs @ (P, c) # rs) p = first_match (xs @ [(P, c)]) p"
  using assms
  by (induction xs) (auto intro!: first_match_none)

lemma classifier_rules_shadow:
  "first_match classifier_rules p = first_match (take 5 classifier_rules) p"
proof -
  have split: "classifier_rules = take 4 classifier_rules @ (\<lambda>p. py_endswith p ''.iso'', PC) #
          drop 5 classifier_rules"
    by (simp add: classifier_rules_def)
  have dead: "\<forall>(Q, d) \<in> set (drop 5 classifier_rules). \<forall>p. Q p \<longrightarrow> py_endswith p ''.iso''"
    by (simp add: classifier_rules_def)
  have "first_match classifier_rules p =
          first_match (take 4 classifier_rules @ [(\<lambda>p. py_endswith p ''.iso'', PC)]) p"
    by (subst split) (rule first_match_shadow [OF dead])
  also have "take 4 classifier_rules @ [(\<lambda>p. py_endswith p ''.iso'', PC)] = take 5 classifier_rules"
    by (simp add: classifier_rules_def)
  finally show ?thesis .
qed

subsection \<open>Properties of the classifier\<close>

text \<open>
  C22. The PS3/PS4/PS5 branch is dead code: it requires the ".iso" suffix, which the
  generic ".iso" rule before it has already claimed. Nor does the classifier ever
  produce the label "Xbox" that the payload policy tests for. So no path is ever
  classified PS3, PS4, PS5 or Xbox.
\<close>

theorem detect_console_never_ps345:
  "detect_console p \<notin> {PS3, PS4, PS5, Xbox}"
  by (simp add: detect_console_def Let_def)

text \<open>
  C23. Refinement of the rule-list contract of specification section 9: the code is the
  ordered list \<open>classifier_rules\<close> evaluated first-match-wins on the lower-cased path,
  and only its first five rules can ever fire.
\<close>

theorem detect_console_refines_rules:
  "detect_console f = first_match classifier_rules (py_lower f) \<and>
   detect_console f = first_match (take 5 classifier_rules) (py_lower f)"
proof -
  have "detect_console f = first_match classifier_rules (py_lower f)"
    by (simp add: detect_console_def classifier_rules_def Let_def)
  then show ?thesis using classifier_rules_shadow by simp
qed

text \<open>
  C24. Matching is case-insensitive: lower-casing the path first never changes the
  label, because \<open>str.lower\<close> is idempotent.
\<close>

theorem detect_console_case_insensitive:
  "detect_console (py_lower p) = detect_console p"
  by (simp add: detect_console_def)

text \<open>
  C25. Exactly the paths whose lower-cased form ends in ".iso" and contains none of
  "ps2", "wii", "xbox360" are classified PC; exactly the paths ending in none of
  ".bin", ".cue", ".iso" are Unknown.
\<close>

theorem detect_console_PC_Unknown_iff:
  "(detect_console p = PC \<longleftrightarrow>
      py_endswith (py_lower p) ''.iso'' \<and> \<not> py_in ''ps2'' (py_lower p) \<and>
      \<not> py_in ''wii'' (py_lower p) \<and> \<not> py_in ''xbox360'' (py_lower p)) \<and>
   (detect_console p = Unknown \<longleftrightarrow>
      \<not> py_endswith (py_lower p) ''.bin'' \<and> \<not> py_endswith (py_lower p) ''.cue'' \<and>
      \<not> py_endswith (py_lower p) ''.iso'')"
proof -
  have iso_bin: "py_endswith q ''.iso'' \<Longrightarrow> \<not> py_endswith q ''.bin'' \<and> \<not> py_endswith q ''.cue''"
    for q :: string
    by (auto simp: py_endswith_def)
  show ?thesis
    using iso_bin [of "py_lower p"]
    by (auto simp: detect_console_def Let_def)
qed

end
