(* ===== verification/PyRuntime.thy ===== *)
theory PyRuntime
  imports Prelude
begin

text \<open>
  The interface between the window's handlers and the outside world. A handler of
  src/main.py reads the file system, the drive table, the user's replies to question
  dialogs and the outcome of the processes it starts; it writes dialogs and starts
  processes. The readings are the fields of the record \<open>world\<close>; the writings are a list
  of \<open>effect\<close>s in the order the code performs them. A Python exception that escapes a
  handler is a value of \<open>py_error\<close>. The theory also holds the library behaviour the
  handlers' strings depend on: \<open>ntpath.join\<close> for a relative second argument,
  \<open>repr\<close> of a \<open>str\<close> and of a list of \<open>str\<close>, \<open>str\<close> of a non-negative
  integer, and the text of \<open>subprocess.CalledProcessError\<close>.
\<close>

subsection \<open>Effects, errors and the world\<close>

datatype msg_kind = Question | Information | Warning | Critical

text \<open>
  \<open>Dialog k title text\<close> is a \<open>QMessageBox\<close> of kind \<open>k\<close>;
  \<open>Run_process args\<close> a call of \<open>subprocess.run(args, check=True)\<close> (blocking);
  \<open>Spawn_process args\<close> a call of \<open>subprocess.Popen(args)\<close> (fire and forget).
\<close>

datatype effect =
    Dialog msg_kind string string
  | Run_process "string list"
  | Spawn_process "string list"

text \<open>
  The exceptions the modelled code can raise, each with what \<open>str\<close> of it needs:
  \<open>AttributeError t a\<close> for attribute \<open>a\<close> missing on an object of type \<open>t\<close>
  (\<open>ModuleAttributeError m a\<close> when the object is the module \<open>m\<close>),
  \<open>KeyError k\<close> with \<open>k\<close> the \<open>repr\<close> of the key, and the message otherwise.
  \<open>Requests_error\<close> is any exception of the \<open>requests\<close> library (connection error,
  timeout), whose text the model does not fix.
\<close>

datatype py_error =
    NameError string
  | AttributeError string string
  | ModuleAttributeError string string
  | KeyError string
  | TypeError string
  | IndexError string
  | JSONDecodeError string
  | OSError string
  | Requests_error string
  | Exception string

text \<open>How a process started by \<open>subprocess.run\<close> ends: with an exit status, or an
  \<open>OSError\<close> (with its text) when it cannot be started.\<close>

datatype proc_outcome = Exited nat | Os_error string

record world =
  cwd :: string
  is_file :: "string \<Rightarrow> bool"
  is_dir :: "string \<Rightarrow> bool"
  logical_drives :: "32 word"
  drive_type :: "string \<Rightarrow> int"
  answers :: "string \<Rightarrow> bool"
  run_outcome :: "string list \<Rightarrow> proc_outcome"
  popen_error :: "string list \<Rightarrow> string option"

text \<open>
  \<open>answers w t\<close> is the user's reply (Yes or not) to the question dialog titled \<open>t\<close>;
  one burn asks each title at most once. \<open>popen_error w args\<close> is the text of the
  exception \<open>Popen\<close> raises for \<open>args\<close>, or \<open>None\<close> when the process starts.
\<close>

subsection \<open>Characters and library strings\<close>

definition bslash :: char where "bslash = CHR 0x5C"
definition newline :: char where "newline = CHR 0x0A"
definition squote :: char where "squote = CHR 0x27"
definition dquote :: char where "dquote = CHR 0x22"

text \<open>\<open>ntpath.join(a, b)\<close> for a \<open>b\<close> with no drive and no root, as the code uses it.\<close>

definition nt_join :: "string \<Rightarrow> string \<Rightarrow> string" where
  "nt_join a b =
     (if a = [] \<or> last a = bslash \<or> last a = CHR ''/'' \<or> (length a = 2 \<and> a ! 1 = CHR '':'')
      then a @ b else a @ [bslash] @ b)"

fun join_with :: "string \<Rightarrow> string list \<Rightarrow> string" where
  "join_with sep [] = []"
| "join_with sep [x] = x"
| "join_with sep (x # y # zs) = x @ sep @ join_with sep (y # zs)"

text \<open>\<open>str(n)\<close> for \<open>n \<ge> 0\<close>.\<close>

fun py_str_nat :: "nat \<Rightarrow> string" where
  "py_str_nat n =
     (if n < 10 then [char_of (48 + n)] else py_str_nat (n div 10) @ [char_of (48 + n mod 10)])"

text \<open>
  \<open>repr\<close> of a \<open>str\<close> on Latin-1: single quotes unless the text holds a single quote and
  no double quote; backslash and the chosen quote escaped; tab, newline and carriage return
  by name; the other non-printable code points (C0, DEL, C1, NBSP, soft hyphen) as
  \<open>\xNN\<close>.
\<close>

definition hex_digit :: "nat \<Rightarrow> char" where
  "hex_digit n = (if n < 10 then char_of (48 + n) else char_of (87 + n))"

definition repr_quote :: "string \<Rightarrow> char" where
  "repr_quote s = (if squote \<in> set s \<and> dquote \<notin> set s then dquote else squote)"

definition repr_char :: "char \<Rightarrow> char \<Rightarrow> string" where
  "repr_char q c =
     (let n = (of_char c :: nat) in
      if c = q \<or> c = bslash then [bslash, c]
      else if n = 9 then [bslash, CHR ''t'']
      else if n = 10 then [bslash, CHR ''n'']
      else if n = 13 then [bslash, CHR ''r'']
      else if n < 32 \<or> (127 \<le> n \<and> n \<le> 160) \<or> n = 173
      then [bslash, CHR ''x'', hex_digit (n div 16), hex_digit (n mod 16)]
      else [c])"

definition py_repr_str :: "string \<Rightarrow> string" where
  "py_repr_str s = (let q = repr_quote s in q # concat (map (repr_char q) s) @ [q])"

definition py_repr_list :: "string list \<Rightarrow> string" where
  "py_repr_list xs = ''['' @ join_with '', '' (map py_repr_str xs) @ '']''"

text \<open>\<open>str(CalledProcessError(n, cmd))\<close> for a positive Windows exit status.\<close>

definition called_process_error_str :: "string list \<Rightarrow> nat \<Rightarrow> string" where
  "called_process_error_str cmd n =
     ''Command '' @ [squote] @ py_repr_list cmd @ [squote] @
     '' returned non-zero exit status '' @ py_str_nat n @ ''.''"

text \<open>
  \<open>subprocess.run(args, check=True)\<close>: returns normally on exit status 0 and raises
  otherwise; the \<open>Inl\<close> carries \<open>str\<close> of the exception.
\<close>

definition subprocess_run_check :: "world \<Rightarrow> string list \<Rightarrow> string + unit" where
  "subprocess_run_check w args =
     (case run_outcome w args of
        Exited 0 \<Rightarrow> Inr ()
      | Exited n \<Rightarrow> Inl (called_process_error_str args n)
      | Os_error e \<Rightarrow> Inl e)"

text \<open>\<open>str(e)\<close> of an exception.\<close>

fun py_error_str :: "py_error \<Rightarrow> string" where
  "py_error_str (NameError n) = ''name '' @ [squote] @ n @ [squote] @ '' is not defined''"
| "py_error_str (AttributeError t a) =
     [squote] @ t @ [squote] @ '' object has no attribute '' @ [squote] @ a @ [squote]"
| "py_error_str (ModuleAttributeError m a) =
     ''module '' @ [squote] @ m @ [squote] @ '' has no attribute '' @ [squote] @ a @ [squote]"
| "py_error_str (KeyError k) = k"
| "py_error_str (TypeError m) = m"
| "py_error_str (IndexError m) = m"
| "py_error_str (JSONDecodeError m) = m"
| "py_error_str (OSError m) = m"
| "py_error_str (Requests_error m) = m"
| "py_error_str (Exception m) = m"

lemmas runtime_defs [py_simps] =
  bslash_def newline_def squote_def dquote_def nt_join_def hex_digit_def repr_quote_def
  repr_char_def py_repr_str_def py_repr_list_def called_process_error_str_def

lemma subprocess_run_check_ok:
  "subprocess_run_check w args = Inr () \<longleftrightarrow> run_outcome w args = Exited 0"
  by (auto simp: subprocess_run_check_def split: proc_outcome.splits nat.splits)

end
