(* ===== verification/Payload.thy ===== *)
theory Payload
  imports Classifier PyRuntime
begin

text \<open>
  The payload policy, \<open>GameDiscBurner.apply_payload_if_needed\<close> (src/main.py, lines
  284-324), and the paths it uses (\<open>self.payload_base\<close>, line 122). It reads the
  window's \<open>selected_console\<close> (a label, or \<open>None\<close> before any selection) and
  \<open>selected_game_path\<close>, and returns the pair \<open>(success, message)\<close> together with the
  effects it performed: the "ESR Patch" question and the patcher run. Every branch of the
  source is a branch here; \<open>subprocess.run\<close>'s exception becomes the message
  "Patch failed: ..." exactly as the \<open>except\<close> clause formats it.
\<close>

type_synonym payload_result = "effect list \<times> (bool \<times> string)"

text \<open>\<open>f"{console}"\<close> for the window's \<open>selected_console\<close>.\<close>

definition py_str_console :: "console option \<Rightarrow> string" where
  "py_str_console c = (case c of None \<Rightarrow> ''None'' | Some k \<Rightarrow> console_name k)"

definition payload_base :: "world \<Rightarrow> string" where
  "payload_base w = nt_join (cwd w) ''payload''"

definition esr_patcher_path :: "world \<Rightarrow> string" where
  "esr_patcher_path w = nt_join (nt_join (payload_base w) ''PS2'') ''FDVDB_ESR_Patcher.exe''"

definition xbox_payload_dir :: "world \<Rightarrow> string" where
  "xbox_payload_dir w = nt_join (payload_base w) ''Xbox''"

definition esr_question :: effect where
  "esr_question = Dialog Question ''ESR Patch''
     ''This PS2 game may require patching for FreeMcBoot. Patch it now?''"

definition apply_payload_if_needed :: "world \<Rightarrow> console option \<Rightarrow> string \<Rightarrow> payload_result" where
  "apply_payload_if_needed w console game_path =
     (if console = Some PS2 then
        (let patcher = esr_patcher_path w in
         if \<not> is_file w patcher then ([], (False, ''ESR patcher not found.''))
         else if answers w ''ESR Patch'' then
           (case subprocess_run_check w [patcher, game_path] of
              Inr _ \<Rightarrow> ([esr_question, Run_process [patcher, game_path]], (True, ''ESR patch applied.''))
            | Inl e \<Rightarrow> ([esr_question, Run_process [patcher, game_path]], (False, ''Patch failed: '' @ e)))
         else ([esr_question], (True, ''User skipped ESR patch.'')))
      else if console = Some Xbox then
        (if \<not> is_dir w (xbox_payload_dir w) then ([], (False, ''SID payload folder missing.''))
         else ([], (True, ''Include SID manually on ISO root using DVD burning.'')))
      else if console = Some Wii then
        ([], (True, ''Wii games typically do not need extra payloads if they are already scrubbed ISO.''))
      else if console = Some Xbox_360 then
        ([], (True, ''Xbox 360 backups must be in .dvd/.iso format and burned using layer break settings (ImgBurn does this automatically).''))
      else if console = Some PS3 then
        ([], (True, ''Requires CFW or HEN to install via USB or ISO mount. Not bootable directly from DVD.''))
      else ([], (True, ''No payload needed for '' @ py_str_console console @ ''.'')))"

abbreviation payload_ok :: "world \<Rightarrow> console option \<Rightarrow> string \<Rightarrow> bool" where
  "payload_ok w c p \<equiv> fst (snd (apply_payload_if_needed w c p))"

abbreviation payload_effects :: "world \<Rightarrow> console option \<Rightarrow> string \<Rightarrow> effect list" where
  "payload_effects w c p \<equiv> fst (apply_payload_if_needed w c p)"

subsection \<open>Lemmas\<close>

lemma apply_payload_PS2_missing:
  "\<not> is_file w (esr_patcher_path w) \<Longrightarrow>
   apply_payload_if_needed w (Some PS2) p = ([], (False, ''ESR patcher not found.''))"
  by (simp add: apply_payload_if_needed_def)

lemma apply_payload_PS2_skip:
  "is_file w (esr_patcher_path w) \<Longrightarrow> \<not> answers w ''ESR Patch'' \<Longrightarrow>
   apply_payload_if_needed w (Some PS2) p = ([esr_question], (True, ''User skipped ESR patch.''))"
  by (simp add: apply_payload_if_needed_def)

lemma apply_payload_PS2_run:
  "is_file w (esr_patcher_path w) \<Longrightarrow> answers w ''ESR Patch'' \<Longrightarrow>
   payload_effects w (Some PS2) p = [esr_question, Run_process [esr_patcher_path w, p]] \<and>
   (payload_ok w (Some PS2) p \<longleftrightarrow> run_outcome w [esr_patcher_path w, p] = Exited 0)"
proof -
  assume f: "is_file w (esr_patcher_path w)" and a: "answers w ''ESR Patch''"
  show ?thesis
  proof (cases "subprocess_run_check w [esr_patcher_path w, p]")
    case (Inl e)
    then have "run_outcome w [esr_patcher_path w, p] \<noteq> Exited 0"
      using subprocess_run_check_ok [of w "[esr_patcher_path w, p]"] by auto
    with Inl f a show ?thesis by (simp add: apply_payload_if_needed_def Let_def)
  next
    case (Inr u)
    then have "run_outcome w [esr_patcher_path w, p] = Exited 0"
      using subprocess_run_check_ok by simp
    with Inr f a show ?thesis by (simp add: apply_payload_if_needed_def Let_def)
  qed
qed

lemma apply_payload_not_PS2:
  "c \<noteq> Some PS2 \<Longrightarrow>
   payload_effects w c p = [] \<and> (payload_ok w c p \<longleftrightarrow> c \<noteq> Some Xbox \<or> is_dir w (xbox_payload_dir w))"
  by (simp add: apply_payload_if_needed_def)

lemmas apply_payload_branches =
  apply_payload_PS2_missing apply_payload_PS2_skip apply_payload_PS2_run apply_payload_not_PS2

lemma esr_question_not_process [simp]:
  "esr_question \<noteq> Run_process a" "esr_question \<noteq> Spawn_process a"
  "Run_process a \<noteq> esr_question" "Spawn_process a \<noteq> esr_question"
  by (simp_all add: esr_question_def)

lemma payload_no_spawn: "Spawn_process a \<notin> set (payload_effects w c p)"
  by (simp add: apply_payload_if_needed_def Let_def esr_question_def split: sum.split)

subsection \<open>Properties\<close>

text \<open>
  C4. Specification section 8: for console PS2 with the ESR patcher missing, the policy
  reports failure with a message that mentions the patcher, and runs no external process
  (nor asks the user anything).
\<close>

theorem apply_payload_PS2_no_patcher:
  assumes "\<not> is_file w (esr_patcher_path w)"
  shows "\<not> payload_ok w (Some PS2) p \<and> py_in ''patcher'' (snd (snd (apply_payload_if_needed w (Some PS2) p))) \<and>
         payload_effects w (Some PS2) p = []"
  using assms by (simp add: apply_payload_PS2_missing)

theorem apply_payload_PS2_no_patcher_witness:
  "\<not> is_file (world.make ''C:'' (\<lambda>_. False) (\<lambda>_. False) 0 (\<lambda>_. 0) (\<lambda>_. True) (\<lambda>_. Exited 0) (\<lambda>_. None))
        (esr_patcher_path (world.make ''C:'' (\<lambda>_. False) (\<lambda>_. False) 0 (\<lambda>_. 0) (\<lambda>_. True) (\<lambda>_. Exited 0) (\<lambda>_. None))) \<and>
   payload_effects (world.make ''C:'' (\<lambda>_. False) (\<lambda>_. False) 0 (\<lambda>_. 0) (\<lambda>_. True) (\<lambda>_. Exited 0) (\<lambda>_. None)) (Some PS2) ''game.iso'' = []"
  using apply_payload_PS2_no_patcher
    [of "world.make ''C:'' (\<lambda>_. False) (\<lambda>_. False) 0 (\<lambda>_. 0) (\<lambda>_. True) (\<lambda>_. Exited 0) (\<lambda>_. None)" "''game.iso''"]
  by (simp add: world.defs)

text \<open>
  C5. The policy fails exactly in three situations: PS2 with the patcher missing, PS2 when
  the user accepts the patch and the patcher does not exit with status 0, and Xbox with
  the payload folder missing. Every other console, and a declined patch, succeeds.
\<close>

theorem apply_payload_failure_iff:
  "\<not> payload_ok w c p \<longleftrightarrow>
     (c = Some PS2 \<and> (\<not> is_file w (esr_patcher_path w) \<or>
        (answers w ''ESR Patch'' \<and> run_outcome w [esr_patcher_path w, p] \<noteq> Exited 0))) \<or>
     (c = Some Xbox \<and> \<not> is_dir w (xbox_payload_dir w))"
  by (cases "c = Some PS2"; cases "is_file w (esr_patcher_path w)"; cases "answers w ''ESR Patch''")
     (simp_all add: apply_payload_branches)

theorem apply_payload_failure_iff_witness:
  "\<not> payload_ok (world.make ''C:'' (\<lambda>_. True) (\<lambda>_. False) 0 (\<lambda>_. 0) (\<lambda>_. True) (\<lambda>_. Exited 0) (\<lambda>_. None))
     (Some Xbox) ''game.iso''"
  using apply_payload_failure_iff
    [of "world.make ''C:'' (\<lambda>_. True) (\<lambda>_. False) 0 (\<lambda>_. 0) (\<lambda>_. True) (\<lambda>_. Exited 0) (\<lambda>_. None)"
        "Some Xbox" "''game.iso''"]
  by (simp add: world.defs)

text \<open>
  C28. The only external process the policy runs is the ESR patcher, with the selected
  image as its sole argument, and only for PS2 when the patcher exists and the user
  answered Yes.
\<close>

theorem apply_payload_processes:
  "Run_process a \<in> set (payload_effects w c p) \<longleftrightarrow>
      c = Some PS2 \<and> is_file w (esr_patcher_path w) \<and> answers w ''ESR Patch'' \<and>
      a = [esr_patcher_path w, p]"
  by (cases "c = Some PS2"; cases "is_file w (esr_patcher_path w)"; cases "answers w ''ESR Patch''")
     (auto simp: apply_payload_branches)

end
