(* ===== verification/Burn.thy ===== *)
theory Burn
  imports Drives Payload
begin

text \<open>
  The burn action, \<open>GameDiscBurner.burn_game\<close> (src/main.py, lines 325-379), with the
  helpers it calls: \<open>manual_drive_selection\<close> (lines 270-282), \<open>show_console_instruction\<close>
  (lines 381-427), \<open>find_dvd_drives\<close> (theory \<open>Drives\<close>) and
  \<open>apply_payload_if_needed\<close> (theory \<open>Payload\<close>). It reads the window's
  \<open>selected_game_path\<close> and \<open>selected_console\<close> and the world, and returns the dialogs and
  process calls it makes, with \<open>Inl\<close> for an exception that escapes the slot.

  \<open>manual_drive_selection\<close> begins with \<open>DriveSelectionDialog(drives, self)\<close>, a class
  that neither src/main.py nor any of its imports defines: the call raises \<open>NameError\<close>
  before any dialog appears, so its model is that exception. The definition follows the
  source's two stages: choosing a drive (lines 335-350), then payload, ImgBurn check and
  launch (lines 352-379). \<open>Spawn_process\<close> records the call of \<open>subprocess.Popen\<close>;
  when that call raises, the "Burn Failed" dialog follows it.
\<close>

definition imgburn_path :: string where
  "imgburn_path = ''C:'' @ [bslash] @ ''Program Files (x86)'' @ [bslash] @ ''ImgBurn'' @ [bslash] @ ''ImgBurn.exe''"

definition burn_args :: "string \<Rightarrow> string \<Rightarrow> string list" where
  "burn_args src dest =
     [imgburn_path, ''/MODE'', ''ISOBURN'', ''/SRC'', src, ''/DEST'', dest, ''/START'', ''/CLOSE'']"

definition manual_drive_selection :: "string list \<Rightarrow> effect list \<times> (py_error + string option)" where
  "manual_drive_selection drives = ([], Inl (NameError ''DriveSelectionDialog''))"

fun console_instructions :: "console \<Rightarrow> string option" where
  "console_instructions PS2 = Some (join_with [newline]
     [''PlayStation 2:'', ''- Requires Free McBoot (FMCB) on memory card.'',
      ''- ESR patched games can boot from DVD-R.'', ''- Insert disc, launch ESR, game should start.''])"
| "console_instructions Xbox = Some (join_with [newline]
     [''Original Xbox:'', ''- Requires softmod (e.g., SID 5.11/5.12).'',
      ''- Burn SID installer to DVD-R.'', ''- Use Splinter Cell or similar with exploit save.''])"
| "console_instructions Wii = Some (join_with [newline]
     [''Nintendo Wii:'', ''- Requires Homebrew Channel installed.'',
      ''- Use NeoGamma or USB Loader GX to run backups.'', ''- Burn to DVD-R for best compatibility.''])"
| "console_instructions Xbox_360 = Some (join_with [newline]
     [''Xbox 360:'', ''- Requires flashed drive (LT+ firmware).'',
      ''- Use .DVD file to burn properly with layer break.'', ''- ImgBurn supports this automatically.''])"
| "console_instructions PS3 = Some (join_with [newline]
     [''PlayStation 3:'', ''- Requires CFW or HEN.'', ''- Burn ISO to disc, or better: use USB/FTP.'',
      ''- Blu-ray burning not required unless for movie ISO.''])"
| "console_instructions PC = Some (join_with [newline]
     [''PC:'', ''- Just insert disc and run.'', ''- No extra mods or patching required.''])"
| "console_instructions PS1 = Some (join_with [newline]
     [''PlayStation 1:'', ''- Burn CD-R at 4x or slower.'',
      ''- Requires modchip or boot disc (PS-X-Change).'', ''- ISO + CUE format is preferred.''])"
| "console_instructions _ = None"

definition show_console_instruction :: "console option \<Rightarrow> effect list" where
  "show_console_instruction console =
     [Dialog Information (py_str_console console @ '' Instructions'')
        (case Option.bind console console_instructions of
           Some t \<Rightarrow> t
         | None \<Rightarrow> ''No specific instructions available for this console.'')]"

definition drive_question :: "string \<Rightarrow> effect" where
  "drive_question d = Dialog Question ''Use Detected Drive''
     (''Detected DVD drive: '' @ d @ [newline] @ ''Use this drive?'')"

text \<open>Lines 335-347: choosing the drive.\<close>

definition select_drive :: "world \<Rightarrow> string list \<Rightarrow> effect list \<times> (py_error + string option)" where
  "select_drive w drives =
     (if length drives = 1 then
        (if answers w ''Use Detected Drive'' then ([drive_question (hd drives)], Inr (Some (hd drives)))
         else (case manual_drive_selection drives of (e, r) \<Rightarrow> (drive_question (hd drives) # e, r)))
      else manual_drive_selection drives)"

text \<open>Lines 352-379: payload, ImgBurn check, launch.\<close>

definition burn_with_drive :: "world \<Rightarrow> string \<Rightarrow> console option \<Rightarrow> string \<Rightarrow> effect list" where
  "burn_with_drive w game_path console drive =
     (case apply_payload_if_needed w console game_path of
        (eff, (success, msg)) \<Rightarrow>
          if \<not> success then eff @ [Dialog Warning ''Payload Error'' msg]
          else
            (let eff' = eff @ [Dialog Information ''Payload'' msg] in
             if \<not> is_file w imgburn_path then
               eff' @ [Dialog Critical ''ImgBurn Not Found'' (''ImgBurn.exe not found at:'' @ [newline] @ imgburn_path)]
             else
               (let args = burn_args game_path drive in
                eff' @ [Spawn_process args] @
                  (case popen_error w args of
                     Some e \<Rightarrow> [Dialog Critical ''Burn Failed'' e]
                   | None \<Rightarrow> show_console_instruction console @
                       [Dialog Information ''Burning Started'' (''Burning started on drive '' @ drive)]))))"

definition no_game_dialog :: effect where
  "no_game_dialog = Dialog Warning ''No Game'' ''Please select a game file first.''"

definition burn_game :: "world \<Rightarrow> string option \<Rightarrow> console option \<Rightarrow> effect list \<times> (py_error + unit)" where
  "burn_game w selected_game_path selected_console =
     (case selected_game_path of
        None \<Rightarrow> ([no_game_dialog], Inr ())
      | Some game_path \<Rightarrow>
          if game_path = [] then ([no_game_dialog], Inr ())
          else
            (let drives = find_dvd_drives (logical_drives w) (drive_type w) in
             if drives = [] then ([Dialog Warning ''No DVD Drive Found'' ''No DVD drive detected.''], Inr ())
             else
               (case select_drive w drives of
                  (e, Inl err) \<Rightarrow> (e, Inl err)
                | (e, Inr None) \<Rightarrow> (e, Inr ())
                | (e, Inr (Some d)) \<Rightarrow>
                    if d = [] then (e, Inr ())
                    else (e @ burn_with_drive w game_path selected_console d, Inr ()))))"

text \<open>
  Two concrete environments that exercise the theorems below: a machine whose only
  optical drive is D:, with every file present, a user who answers Yes and processes
  that succeed; and the same machine with a second optical drive E:.
\<close>

definition one_drive_world :: world where
  "one_drive_world =
     \<lparr>cwd = ''C:'' @ [bslash] @ ''Tools'', is_file = (\<lambda>_. True), is_dir = (\<lambda>_. True),
      logical_drives = 12, drive_type = (\<lambda>r. if r = ''D:/'' then 5 else 3),
      answers = (\<lambda>_. True), run_outcome = (\<lambda>_. Exited 0), popen_error = (\<lambda>_. None)\<rparr>"

definition two_drive_world :: world where
  "two_drive_world = one_drive_world
     \<lparr>logical_drives := 28, drive_type := (\<lambda>r. if r = ''D:/'' \<or> r = ''E:/'' then 5 else 3)\<rparr>"

subsection \<open>Lemmas\<close>

lemma show_console_instruction_no_process [simp]:
  "Spawn_process a \<notin> set (show_console_instruction c)"
  "Run_process a \<notin> set (show_console_instruction c)"
  by (simp_all add: show_console_instruction_def)

lemma dialogs_not_process [simp]:
  "drive_question d \<noteq> Spawn_process a" "drive_question d \<noteq> Run_process a"
  "no_game_dialog \<noteq> Spawn_process a" "no_game_dialog \<noteq> Run_process a"
  "Spawn_process a \<noteq> drive_question d" "Run_process a \<noteq> drive_question d"
  "Spawn_process a \<noteq> no_game_dialog" "Run_process a \<noteq> no_game_dialog"
  by (simp_all add: drive_question_def no_game_dialog_def)

lemma burn_with_drive_spawn:
  "Spawn_process a \<in> set (burn_with_drive w p c d) \<longleftrightarrow>
     payload_ok w c p \<and> is_file w imgburn_path \<and> a = burn_args p d"
proof -
  obtain eff ok msg where ap: "apply_payload_if_needed w c p = (eff, ok, msg)"
    by (cases "apply_payload_if_needed w c p") auto
  moreover have "Spawn_process a \<notin> set eff"
    using payload_no_spawn [of a w c p] ap by simp
  ultimately show ?thesis
    by (auto simp: burn_with_drive_def Let_def split: option.splits)
qed

lemma burn_with_drive_run:
  "Run_process a \<in> set (burn_with_drive w p c d) \<longleftrightarrow> Run_process a \<in> set (payload_effects w c p)"
proof -
  obtain eff ok msg where "apply_payload_if_needed w c p = (eff, ok, msg)"
    by (cases "apply_payload_if_needed w c p") auto
  then show ?thesis
    by (auto simp: burn_with_drive_def Let_def split: option.splits)
qed

lemma select_drive_confirmed:
  "answers w ''Use Detected Drive'' \<Longrightarrow> select_drive w [d] = ([drive_question d], Inr (Some d))"
  by (simp add: select_drive_def)

lemma select_drive_manual:
  assumes "\<not> (length drives = 1 \<and> answers w ''Use Detected Drive'')"
  shows "snd (select_drive w drives) = Inl (NameError ''DriveSelectionDialog'') \<and>
         set (fst (select_drive w drives)) \<subseteq> {drive_question (hd drives)}"
  using assms by (auto simp: select_drive_def manual_drive_selection_def)

lemma find_dvd_drives_nonempty_names:
  "d \<in> set (find_dvd_drives w gdt) \<Longrightarrow> d \<noteq> []"
  using find_dvd_drives_names by fastforce

text \<open>The shape of every run of \<open>burn_game\<close> that gets past drive selection.\<close>

lemma burn_game_confirmed:
  assumes "p \<noteq> []" and "find_dvd_drives (logical_drives w) (drive_type w) = [d]"
    and "answers w ''Use Detected Drive''"
  shows "burn_game w (Some p) c = (drive_question d # burn_with_drive w p c d, Inr ())"
proof -
  have "d \<noteq> []"
    using assms(2) find_dvd_drives_nonempty_names [of d "logical_drives w" "drive_type w"] by simp
  with assms show ?thesis
    by (simp add: burn_game_def select_drive_confirmed)
qed

text \<open>Every other run makes no process call at all, and ends in one of the early returns
  or in the \<open>NameError\<close> of manual selection.\<close>

lemma burn_game_unconfirmed:
  assumes "\<not> (\<exists>p d. path = Some p \<and> p \<noteq> [] \<and>
              find_dvd_drives (logical_drives w) (drive_type w) = [d] \<and> answers w ''Use Detected Drive'')"
  shows "set (fst (burn_game w path c)) \<subseteq>
           {no_game_dialog, Dialog Warning ''No DVD Drive Found'' ''No DVD drive detected.''} \<union>
           drive_question ` set (find_dvd_drives (logical_drives w) (drive_type w))"
proof (cases path)
  case None
  then show ?thesis by (simp add: burn_game_def)
next
  case (Some p)
  let ?ds = "find_dvd_drives (logical_drives w) (drive_type w)"
  show ?thesis
  proof (cases "p = [] \<or> ?ds = []")
    case True
    with Some show ?thesis by (auto simp: burn_game_def)
  next
    case False
    with assms Some have manual: "\<not> (length ?ds = 1 \<and> answers w ''Use Detected Drive'')"
      by (auto simp: length_Suc_conv)
    obtain e where sel: "select_drive w ?ds = (e, Inl (NameError ''DriveSelectionDialog''))"
      and "set e \<subseteq> {drive_question (hd ?ds)}"
      using select_drive_manual [OF manual] by (cases "select_drive w ?ds") auto
    moreover have "hd ?ds \<in> set ?ds" using False by simp
    ultimately show ?thesis using False Some
      by (auto simp: burn_game_def)
  qed
qed

text \<open>The shape of every run of \<open>burn_game\<close> that reaches manual selection.\<close>

lemma burn_game_manual:
  assumes "p \<noteq> []" and "find_dvd_drives (logical_drives w) (drive_type w) \<noteq> []"
    and "\<not> (length (find_dvd_drives (logical_drives w) (drive_type w)) = 1 \<and> answers w ''Use Detected Drive'')"
  shows "\<exists>e. burn_game w (Some p) c = (e, Inl (NameError ''DriveSelectionDialog'')) \<and>
             set e \<subseteq> {drive_question (hd (find_dvd_drives (logical_drives w) (drive_type w)))}"
proof -
  let ?ds = "find_dvd_drives (logical_drives w) (drive_type w)"
  obtain e where sel: "select_drive w ?ds = (e, Inl (NameError ''DriveSelectionDialog''))"
    and eff: "set e \<subseteq> {drive_question (hd ?ds)}"
    using select_drive_manual [OF assms(3)] by (cases "select_drive w ?ds") auto
  have "burn_game w (Some p) c = (e, Inl (NameError ''DriveSelectionDialog''))"
    using assms(1,2) sel by (simp add: burn_game_def)
  with eff show ?thesis by blast
qed

lemma one_drive_world_facts:
  "answers one_drive_world ''Use Detected Drive''" "is_file one_drive_world imgburn_path"
  "payload_ok one_drive_world (Some PC) p"
  by (simp_all add: one_drive_world_def apply_payload_not_PS2)

lemma one_drive_world_drives:
  "find_dvd_drives (logical_drives one_drive_world) (drive_type one_drive_world) = [''D:'']"
  by (simp add: one_drive_world_def find_dvd_drives_def drive_letters_def DRIVE_CDROM_def)

lemma two_drive_world_drives:
  "find_dvd_drives (logical_drives two_drive_world) (drive_type two_drive_world) = [''D:'', ''E:'']"
  by (simp add: two_drive_world_def one_drive_world_def find_dvd_drives_def drive_letters_def
      DRIVE_CDROM_def)

subsection \<open>Properties\<close>

text \<open>
  C1. Safety of the burn action: whenever \<open>burn_game\<close> calls \<open>Popen\<close>, a non-empty file
  path was selected, drive enumeration found exactly one optical drive and the user
  confirmed it, the payload policy succeeded for the selected console, ImgBurn.exe
  exists, and the command line is the fixed ImgBurn template with that file as source
  and that drive as destination.
\<close>

theorem burn_game_spawn_safe:
  assumes "Spawn_process args \<in> set (fst (burn_game w path c))"
  shows "\<exists>p d. path = Some p \<and> p \<noteq> [] \<and>
           find_dvd_drives (logical_drives w) (drive_type w) = [d] \<and>
           answers w ''Use Detected Drive'' \<and> payload_ok w c p \<and> is_file w imgburn_path \<and>
           args = [imgburn_path, ''/MODE'', ''ISOBURN'', ''/SRC'', p, ''/DEST'', d, ''/START'', ''/CLOSE'']"
proof (cases "\<exists>p d. path = Some p \<and> p \<noteq> [] \<and>
              find_dvd_drives (logical_drives w) (drive_type w) = [d] \<and> answers w ''Use Detected Drive''")
  case True
  then obtain p d where p: "path = Some p" "p \<noteq> []"
    and d: "find_dvd_drives (logical_drives w) (drive_type w) = [d]"
    and yes: "answers w ''Use Detected Drive''" by blast
  with assms have "Spawn_process args \<in> set (burn_with_drive w p c d)"
    by (simp add: burn_game_confirmed)
  with p d yes show ?thesis by (auto simp: burn_with_drive_spawn burn_args_def)
next
  case False
  have "Spawn_process args \<in>
          {no_game_dialog, Dialog Warning ''No DVD Drive Found'' ''No DVD drive detected.''} \<union>
          drive_question ` set (find_dvd_drives (logical_drives w) (drive_type w))"
    using burn_game_unconfirmed [OF False, of c] assms by blast
  then show ?thesis by auto
qed

theorem burn_game_spawn_safe_witness:
  "Spawn_process (burn_args ''game.iso'' ''D:'') \<in> set (fst (burn_game one_drive_world (Some ''game.iso'') (Some PC))) \<and>
   payload_ok one_drive_world (Some PC) ''game.iso''"
proof -
  have spawn: "Spawn_process (burn_args ''game.iso'' ''D:'') \<in>
                 set (fst (burn_game one_drive_world (Some ''game.iso'') (Some PC)))"
    using one_drive_world_drives one_drive_world_facts
    by (simp add: burn_game_confirmed burn_with_drive_spawn)
  show ?thesis using burn_game_spawn_safe [OF spawn] spawn by auto
qed

text \<open>
  C2. Conversely, when a file is selected, exactly one optical drive is found and
  confirmed, the payload step succeeds and ImgBurn.exe exists, \<open>burn_game\<close> calls
  \<open>Popen\<close> with the ImgBurn command line for that file and drive, and raises nothing.
\<close>

theorem burn_game_launches:
  assumes "p \<noteq> []" and "find_dvd_drives (logical_drives w) (drive_type w) = [d]"
    and "answers w ''Use Detected Drive''" and "payload_ok w c p" and "is_file w imgburn_path"
  shows "Spawn_process (burn_args p d) \<in> set (fst (burn_game w (Some p) c)) \<and>
         snd (burn_game w (Some p) c) = Inr ()"
  using assms by (simp add: burn_game_confirmed burn_with_drive_spawn)

theorem burn_game_launches_witness:
  "Spawn_process (burn_args ''game.iso'' ''D:'') \<in> set (fst (burn_game one_drive_world (Some ''game.iso'') (Some PC)))"
  using burn_game_launches [of "''game.iso''" one_drive_world "''D:''" "Some PC"]
    one_drive_world_drives one_drive_world_facts
  by simp

text \<open>
  C3. Manual drive selection always fails: with two or more optical drives, or with one
  drive the user declines, \<open>burn_game\<close> raises \<open>NameError\<close> for the undefined
  \<open>DriveSelectionDialog\<close>, after having run and launched nothing.
\<close>

theorem burn_game_manual_selection_NameError:
  assumes "p \<noteq> []"
    and "2 \<le> length (find_dvd_drives (logical_drives w) (drive_type w)) \<or>
         (length (find_dvd_drives (logical_drives w) (drive_type w)) = 1 \<and> \<not> answers w ''Use Detected Drive'')"
  shows "snd (burn_game w (Some p) c) = Inl (NameError ''DriveSelectionDialog'') \<and>
         (\<forall>a. Spawn_process a \<notin> set (fst (burn_game w (Some p) c)) \<and>
              Run_process a \<notin> set (fst (burn_game w (Some p) c)))"
proof -
  let ?ds = "find_dvd_drives (logical_drives w) (drive_type w)"
  have "\<not> (length ?ds = 1 \<and> answers w ''Use Detected Drive'')" and "?ds \<noteq> []"
    using assms(2) by auto
  then obtain e where "burn_game w (Some p) c = (e, Inl (NameError ''DriveSelectionDialog''))"
    and "set e \<subseteq> {drive_question (hd ?ds)}"
    using burn_game_manual [OF assms(1)] by blast
  then show ?thesis by auto
qed

theorem burn_game_manual_selection_NameError_witness:
  "snd (burn_game two_drive_world (Some ''game.iso'') (Some PS2)) = Inl (NameError ''DriveSelectionDialog'')"
  using burn_game_manual_selection_NameError [of "''game.iso''" two_drive_world] two_drive_world_drives
  by simp

end
