(* ===== verification/Normalizer.thy ===== *)
theory Normalizer
  imports PyRuntime
begin

text \<open>
  The title normalizer, \<open>GameDiscBurner.smart_game_name\<close> (src/main.py, lines 189-196):
  \<^verbatim>\<open>
    base = os.path.basename(file_path)
    name = os.path.splitext(base)[0]
    name = re.sub(r'\(([^)]+)\)', '', name)
    name = re.sub(r'\[[^\]]+\]', '', name)
    name = re.sub(r'[^a-zA-Z0-9 ]', ' ', name)
    name = re.sub(r'\s+', ' ', name).strip()
    return name.title()
  \<close>
  The program runs on Windows (it calls \<open>windll\<close>), so \<open>os.path\<close> is \<open>ntpath\<close>:
  \<open>nt_basename\<close> and \<open>splitext_root\<close> follow \<open>ntpath.splitroot\<close>/\<open>split\<close> and
  \<open>genericpath._splitext\<close>. Each \<open>re.sub\<close> is a left-to-right scan: at every position
  the pattern is tried, a match is replaced and the scan resumes after it, otherwise the
  character is kept. \<open>str.title\<close> is modelled on ASCII text (\<open>ascii_title\<close>), which is
  exact here: lemma \<open>keep_alnum_space_chars\<close> shows that its argument only ever holds ASCII
  letters, digits and spaces.
\<close>

subsection \<open>Paths: ntpath.basename and splitext\<close>

definition nt_is_sep :: "char \<Rightarrow> bool" where
  "nt_is_sep c \<longleftrightarrow> c = bslash \<or> c = CHR ''/''"

text \<open>The text after the last separator (\<open>split\<close>'s tail).\<close>

definition after_last_sep :: "string \<Rightarrow> string" where
  "after_last_sep s = rev (takeWhile (\<lambda>c. \<not> nt_is_sep c) (rev s))"

text \<open>
  \<open>ntpath.splitroot\<close> decides what the tail is taken from. A path starting with two
  separators is a UNC or device path: its drive runs to the second separator after the
  prefix (\<open>\\?\UNC\\<close> or the first two characters); with fewer separators the whole
  path is the drive and the tail is empty. Any other path starting with a separator is
  rooted, without a drive. A path whose first character is not a separator and whose
  second is a colon has the drive "X:" in front. Otherwise the tail is taken from the
  whole path. This is \<open>splitroot\<close> of Python 3.12 and later, the version whose
  messages the model uses throughout (3.11's \<open>splitdrive\<close> also took "/:" as a drive).
\<close>

definition unc_prefix :: string where
  "unc_prefix = [bslash, bslash, CHR ''?'', bslash, CHR ''U'', CHR ''N'', CHR ''C'', bslash]"

definition nt_norm :: "string \<Rightarrow> string" where
  "nt_norm p = map (\<lambda>c. if c = CHR ''/'' then bslash else c) p"

definition unc_complete :: "string \<Rightarrow> bool" where
  "unc_complete p \<longleftrightarrow>
     (let n = nt_norm p;
          start = (if map ascii_upper_char (take 8 n) = unc_prefix then 8 else 2);
          rest = drop start n
      in bslash \<in> set rest \<and> bslash \<in> set (tl (dropWhile (\<lambda>c. c \<noteq> bslash) rest)))"

definition nt_basename :: "string \<Rightarrow> string" where
  "nt_basename p =
     (if take 2 (nt_norm p) = [bslash, bslash] then
        (if unc_complete p then after_last_sep p else [])
      else if length p \<ge> 2 \<and> \<not> nt_is_sep (p ! 0) \<and> p ! 1 = CHR '':'' then after_last_sep (drop 2 p)
      else after_last_sep p)"

text \<open>\<open>str.rfind\<close> for a character class: the last index, or -1.\<close>

fun rfind_from :: "(char \<Rightarrow> bool) \<Rightarrow> string \<Rightarrow> int \<Rightarrow> int \<Rightarrow> int" where
  "rfind_from P [] i r = r"
| "rfind_from P (c # cs) i r = rfind_from P cs (i + 1) (if P c then i else r)"

definition py_rfind :: "(char \<Rightarrow> bool) \<Rightarrow> string \<Rightarrow> int" where
  "py_rfind P s = rfind_from P s 0 (-1)"

text \<open>
  \<open>genericpath._splitext(p, '\\', '/', '.')[0]\<close>: the extension starts at the last dot
  after the last separator, provided some character between that separator and the dot
  is not a dot (so leading dots do not start an extension).
\<close>

definition splitext_root :: "string \<Rightarrow> string" where
  "splitext_root p =
     (let sep_index = py_rfind nt_is_sep p;
          dot_index = py_rfind (\<lambda>c. c = CHR ''.'') p
      in if dot_index > sep_index \<and>
            filter (\<lambda>c. c \<noteq> CHR ''.'') (drop (nat (sep_index + 1)) (take (nat dot_index) p)) \<noteq> []
         then take (nat dot_index) p else p)"

subsection \<open>The substitutions\<close>

text \<open>
  \<open>re.sub(r'\(([^)]+)\)', '', s)\<close> and \<open>re.sub(r'\[[^\]]+\]', '', s)\<close>: at an opening
  character the pattern matches iff a closing character follows with at least one other
  character in between; the match ends at the first closing character.
\<close>

fun remove_groups :: "char \<Rightarrow> char \<Rightarrow> string \<Rightarrow> string" where
  "remove_groups opn cls [] = []"
| "remove_groups opn cls (c # cs) =
     (let inner = takeWhile (\<lambda>x. x \<noteq> cls) cs in
      if c = opn \<and> inner \<noteq> [] \<and> cls \<in> set cs
      then remove_groups opn cls (drop (Suc (length inner)) cs)
      else c # remove_groups opn cls cs)"

text \<open>\<open>re.sub(r'[^a-zA-Z0-9 ]', ' ', s)\<close>.\<close>

definition keep_alnum_space :: "string \<Rightarrow> string" where
  "keep_alnum_space s = map (\<lambda>c. if is_ascii_alnum c \<or> c = CHR '' '' then c else CHR '' '') s"

text \<open>\<open>re.sub(r'\s+', ' ', s)\<close>: every maximal run of whitespace becomes one space.\<close>

function collapse_ws :: "string \<Rightarrow> string" where
  "collapse_ws [] = []"
| "collapse_ws (c # cs) =
     (if py_isspace c then CHR '' '' # collapse_ws (dropWhile py_isspace cs)
      else c # collapse_ws cs)"
  by pat_completeness auto
termination
  by (relation "measure length") (auto simp: le_imp_less_Suc length_dropWhile_le)

text \<open>\<open>str.strip()\<close>.\<close>

definition py_strip :: "string \<Rightarrow> string" where
  "py_strip s = rev (dropWhile py_isspace (rev (dropWhile py_isspace s)))"

text \<open>
  \<open>str.title()\<close> on ASCII: a letter is upper-cased when the character before it is not a
  letter (or it is the first), lower-cased otherwise; other characters are kept.
\<close>

fun title_from :: "bool \<Rightarrow> string \<Rightarrow> string" where
  "title_from prev_cased [] = []"
| "title_from prev_cased (c # cs) =
     (if is_ascii_alpha c
      then (if prev_cased then ascii_lower_char c else ascii_upper_char c) # title_from True cs
      else c # title_from False cs)"

definition ascii_title :: "string \<Rightarrow> string" where
  "ascii_title s = title_from False s"

definition smart_game_name :: "path \<Rightarrow> string" where
  "smart_game_name file_path =
     (let base = nt_basename file_path;
          name = splitext_root base;
          name = remove_groups (CHR ''('') (CHR '')'') name;
          name = remove_groups (CHR ''['') (CHR '']'') name;
          name = keep_alnum_space name;
          name = py_strip (collapse_ws name)
      in ascii_title name)"

subsection \<open>The shape of a normalized title\<close>

text \<open>No two consecutive whitespace characters.\<close>

fun no_double_ws :: "string \<Rightarrow> bool" where
  "no_double_ws (a # b # cs) \<longleftrightarrow> \<not> (py_isspace a \<and> py_isspace b) \<and> no_double_ws (b # cs)"
| "no_double_ws _ \<longleftrightarrow> True"

text \<open>
  A normalized title: ASCII letters, digits and single spaces, no space at either end,
  and already in title case.
\<close>

definition normalized_title :: "string \<Rightarrow> bool" where
  "normalized_title t \<longleftrightarrow>
     list_all (\<lambda>c. is_ascii_alnum c \<or> c = CHR '' '') t \<and> no_double_ws t \<and>
     list_all (\<lambda>c. \<not> py_isspace c) (take 1 t @ take 1 (rev t)) \<and> ascii_title t = t"

subsection \<open>Lemmas: characters\<close>

lemma alnum_not_space [simp]: "is_ascii_alnum c \<Longrightarrow> \<not> py_isspace c"
  by (auto simp: is_ascii_alnum_def is_ascii_alpha_def is_ascii_upper_def is_ascii_lower_def
      is_ascii_digit_def py_isspace_def)

lemma space_is_space [simp]: "py_isspace (CHR '' '')"
  by (simp add: py_isspace_def)

lemma alpha_alnum: "is_ascii_alpha c \<Longrightarrow> is_ascii_alnum c"
  by (simp add: is_ascii_alnum_def)

lemma upper_char_alpha [simp]: "is_ascii_alpha (ascii_upper_char c) \<longleftrightarrow> is_ascii_alpha c"
  by (auto simp: ascii_upper_char_def is_ascii_alpha_def is_ascii_upper_def is_ascii_lower_def)

lemma lower_char_alpha [simp]: "is_ascii_alpha (ascii_lower_char c) \<longleftrightarrow> is_ascii_alpha c"
  by (auto simp: ascii_lower_char_def is_ascii_alpha_def is_ascii_upper_def is_ascii_lower_def)

lemma upper_lower_char [simp]:
  "is_ascii_alpha c \<Longrightarrow> ascii_upper_char (ascii_lower_char c) = ascii_upper_char c"
  "is_ascii_alpha c \<Longrightarrow> ascii_lower_char (ascii_upper_char c) = ascii_lower_char c"
  "ascii_upper_char (ascii_upper_char c) = ascii_upper_char c"
  "ascii_lower_char (ascii_lower_char c) = ascii_lower_char c"
  by (auto simp: ascii_upper_char_def ascii_lower_char_def is_ascii_alpha_def is_ascii_upper_def
      is_ascii_lower_def)

subsection \<open>Lemmas: the stages\<close>

lemma alnum_space_excludes:
  "is_ascii_alnum c \<or> c = CHR '' '' \<Longrightarrow>
   c \<noteq> CHR ''/'' \<and> c \<noteq> bslash \<and> c \<noteq> CHR ''.'' \<and> c \<noteq> CHR '':'' \<and>
   c \<noteq> CHR ''('' \<and> c \<noteq> CHR '')'' \<and> c \<noteq> CHR ''['' \<and> c \<noteq> CHR '']'' \<and>
   (py_isspace c \<longrightarrow> c = CHR '' '')"
  by (auto simp: is_ascii_alnum_def is_ascii_alpha_def is_ascii_upper_def is_ascii_lower_def
      is_ascii_digit_def bslash_def)

lemma keep_alnum_space_chars: "list_all (\<lambda>c. is_ascii_alnum c \<or> c = CHR '' '') (keep_alnum_space s)"
  by (induction s) (auto simp: keep_alnum_space_def)

lemma keep_alnum_space_id:
  "list_all (\<lambda>c. is_ascii_alnum c \<or> c = CHR '' '') s \<Longrightarrow> keep_alnum_space s = s"
  by (induction s) (auto simp: keep_alnum_space_def)

lemma set_collapse_ws: "set (collapse_ws s) \<subseteq> set s \<union> {CHR '' ''}"
  by (induction s rule: collapse_ws.induct) (auto dest: set_dropWhileD)

lemma no_double_ws_Cons:
  "no_double_ws (a # xs) \<longleftrightarrow> (xs \<noteq> [] \<longrightarrow> \<not> (py_isspace a \<and> py_isspace (hd xs))) \<and> no_double_ws xs"
  by (cases xs) auto

lemma collapse_ws_hd:
  "collapse_ws (c # cs) = (if py_isspace c then CHR '' '' else c) # tl (collapse_ws (c # cs))"
  by simp

lemma no_double_ws_collapse: "no_double_ws (collapse_ws s)"
proof (induction s rule: collapse_ws.induct)
  case 1
  then show ?case by simp
next
  case (2 c cs)
  show ?case
  proof (cases "py_isspace c")
    case True
    show ?thesis
    proof (cases "dropWhile py_isspace cs")
      case Nil
      with True show ?thesis by (simp del: dropWhile_eq_Nil_conv)
    next
      case (Cons x xs)
      then have "\<not> py_isspace x" using hd_dropWhile [of py_isspace cs] by fastforce
      with True Cons "2.IH"(1) show ?thesis by (simp add: no_double_ws_Cons)
    qed
  next
    case False
    with "2.IH"(2) show ?thesis
      by (cases cs) (simp_all add: no_double_ws_Cons)
  qed
qed

lemma no_double_ws_nth:
  "no_double_ws s \<longleftrightarrow> (\<forall>i. Suc i < length s \<longrightarrow> \<not> (py_isspace (s ! i) \<and> py_isspace (s ! Suc i)))"
proof (induction s rule: no_double_ws.induct)
  case (1 a b cs)
  show ?case
    by (simp add: "1.IH" All_less_Suc2)
qed simp_all


lemma no_double_ws_drop: "no_double_ws s \<Longrightarrow> no_double_ws (drop n s)"
  by (auto simp: no_double_ws_nth)

lemma no_double_ws_take: "no_double_ws s \<Longrightarrow> no_double_ws (take n s)"
  by (auto simp: no_double_ws_nth)

lemma py_strip_take_drop:
  "py_strip s =
     take (length (dropWhile py_isspace s) - length (takeWhile py_isspace (rev (dropWhile py_isspace s))))
       (dropWhile py_isspace s)"
  by (simp add: py_strip_def dropWhile_eq_drop [of _ "rev _"] rev_drop)

lemma no_double_ws_strip: "no_double_ws s \<Longrightarrow> no_double_ws (py_strip s)"
  by (simp add: py_strip_take_drop dropWhile_eq_drop [of _ s] no_double_ws_drop no_double_ws_take)

lemma set_py_strip: "set (py_strip s) \<subseteq> set s"
proof
  fix x assume "x \<in> set (py_strip s)"
  then have "x \<in> set (rev (dropWhile py_isspace s))"
    unfolding py_strip_def by (auto dest: set_dropWhileD)
  then show "x \<in> set s" by (auto dest: set_dropWhileD)
qed

lemma py_strip_id:
  assumes "list_all (\<lambda>c. \<not> py_isspace c) (take 1 s @ take 1 (rev s))"
  shows "py_strip s = s"
proof (cases s)
  case Nil
  then show ?thesis by (simp add: py_strip_def)
next
  case (Cons x xs)
  then obtain y ys where r: "rev s = y # ys" by (cases "rev s") auto
  have t1: "take 1 s = [hd s]" using Cons by simp
  have t2: "take 1 (rev s) = [hd (rev s)]" using r by simp
  from assms have "\<not> py_isspace (hd s)" "\<not> py_isspace (hd (rev s))"
    by (simp_all only: t1 t2) simp_all
  then have "dropWhile py_isspace s = s" "dropWhile py_isspace (rev s) = rev s"
    by (simp_all add: dropWhile_eq_self_iff)
  then show ?thesis by (simp add: py_strip_def)
qed

lemma alpha_not_space [simp]: "is_ascii_alpha c \<Longrightarrow> \<not> py_isspace c"
  by (simp add: alpha_alnum)

lemma title_from_isspace: "map py_isspace (title_from b s) = map py_isspace s"
  by (induction b s rule: title_from.induct) (auto dest: alpha_alnum)

lemma title_from_chars:
  "list_all (\<lambda>c. is_ascii_alnum c \<or> c = CHR '' '') s \<Longrightarrow>
   list_all (\<lambda>c. is_ascii_alnum c \<or> c = CHR '' '') (title_from b s)"
  by (induction b s rule: title_from.induct) (auto intro: alpha_alnum)

lemma title_from_idem: "title_from b (title_from b s) = title_from b s"
  by (induction b s rule: title_from.induct) auto


lemma take1_dropWhile: "list_all (\<lambda>c. \<not> P c) (take 1 (dropWhile P xs))"
  using hd_dropWhile [of P xs] by (cases "dropWhile P xs") (simp_all del: dropWhile_eq_Nil_conv)

lemma list_all_take: "list_all P xs \<Longrightarrow> list_all P (take n xs)"
  by (simp add: list_all_iff) (meson in_set_takeD)

lemma py_strip_edges: "list_all (\<lambda>c. \<not> py_isspace c) (take 1 (py_strip s) @ take 1 (rev (py_strip s)))"
proof -
  let ?d = "dropWhile py_isspace s"
  have "take 1 (rev (py_strip s)) = take 1 (dropWhile py_isspace (rev ?d))"
    by (simp add: py_strip_def)
  then have last: "list_all (\<lambda>c. \<not> py_isspace c) (take 1 (rev (py_strip s)))"
    by (simp only: take1_dropWhile)
  obtain m where "py_strip s = take m ?d" using py_strip_take_drop by blast
  then have "take 1 (py_strip s) = take m (take 1 ?d)" by (simp add: min.commute)
  then have "list_all (\<lambda>c. \<not> py_isspace c) (take 1 (py_strip s))"
    using list_all_take [OF take1_dropWhile [of py_isspace s]] by simp
  with last show ?thesis by simp
qed

lemma edges_map_eq:
  assumes "map P xs = map P ys"
  shows "list_all (\<lambda>c. \<not> P c) (take 1 xs @ take 1 (rev xs)) = list_all (\<lambda>c. \<not> P c) (take 1 ys @ take 1 (rev ys))"
proof -
  have "list_all (\<lambda>c. \<not> P c) (take 1 zs @ take 1 (rev zs)) =
          list_all Not (take 1 (map P zs) @ take 1 (rev (map P zs)))" for zs
    by (simp add: take_map rev_map list.pred_map comp_def)
  then show ?thesis using assms by metis
qed

lemma no_double_ws_map_eq:
  assumes eq: "map py_isspace xs = map py_isspace ys"
  shows "no_double_ws xs = no_double_ws ys"
proof -
  have len: "length xs = length ys" using eq by (metis length_map)
  have "py_isspace (xs ! i) = py_isspace (ys ! i)" if "i < length xs" for i
    using eq that len by (metis nth_map)
  then show ?thesis using len by (auto simp: no_double_ws_nth)
qed

lemma rfind_from_none: "list_all (\<lambda>c. \<not> P c) s \<Longrightarrow> rfind_from P s i r = r"
  by (induction s arbitrary: i) auto

lemma remove_groups_id: "opn \<notin> set s \<Longrightarrow> remove_groups opn cls s = s"
  by (induction opn cls s rule: remove_groups.induct) (auto simp: Let_def)

lemma collapse_ws_id:
  "list_all (\<lambda>c. py_isspace c \<longrightarrow> c = CHR '' '') s \<Longrightarrow> no_double_ws s \<Longrightarrow> collapse_ws s = s"
proof (induction s rule: collapse_ws.induct)
  case (2 c cs)
  show ?case
  proof (cases "py_isspace c")
    case True
    with "2.prems"(2) have "dropWhile py_isspace cs = cs"
      by (cases cs) (simp_all add: no_double_ws_Cons)
    with True "2.IH"(1) "2.prems" show ?thesis
      by (simp add: no_double_ws_Cons del: dropWhile_eq_self_iff)
  next
    case False
    with "2.IH"(2) "2.prems" show ?thesis by (simp add: no_double_ws_Cons)
  qed
qed simp

text \<open>The title case of the last stage survives: every stage keeps it or produces it.\<close>

lemma smart_game_name_shape: "normalized_title (smart_game_name p)"
proof -
  let ?Q = "\<lambda>c. is_ascii_alnum c \<or> c = CHR '' ''"
  define x where "x = keep_alnum_space (remove_groups (CHR ''['') (CHR '']'')
                   (remove_groups (CHR ''('') (CHR '')'') (splitext_root (nt_basename p))))"
  define y where "y = py_strip (collapse_ws x)"
  have t: "smart_game_name p = title_from False y"
    by (simp add: smart_game_name_def ascii_title_def x_def y_def Let_def)
  have "list_all ?Q x" by (simp add: x_def keep_alnum_space_chars)
  then have "list_all ?Q (collapse_ws x)"
    using set_collapse_ws [of x] by (auto simp: list_all_iff)
  then have Qy: "list_all ?Q y"
    using set_py_strip [of "collapse_ws x"] by (auto simp: list_all_iff y_def)
  have "no_double_ws y"
    by (simp add: y_def no_double_ws_strip no_double_ws_collapse)
  then have "no_double_ws (title_from False y)"
    using no_double_ws_map_eq [OF title_from_isspace] by blast
  moreover have "list_all (\<lambda>c. \<not> py_isspace c) (take 1 (title_from False y) @ take 1 (rev (title_from False y)))"
    using edges_map_eq [OF title_from_isspace [of False y]] py_strip_edges [of "collapse_ws x"]
    by (simp add: y_def)
  ultimately show ?thesis
    using title_from_chars [OF Qy] title_from_idem
    by (simp add: normalized_title_def t ascii_title_def)
qed

lemma normalized_title_fix:
  assumes "normalized_title t"
  shows "smart_game_name t = t"
proof -
  have Q: "list_all (\<lambda>c. is_ascii_alnum c \<or> c = CHR '' '') t"
    and nd: "no_double_ws t"
    and edges: "list_all (\<lambda>c. \<not> py_isspace c) (take 1 t @ take 1 (rev t))"
    and title: "ascii_title t = t"
    using assms by (simp_all add: normalized_title_def)
  have chars: "c \<in> set t \<Longrightarrow>
      c \<noteq> CHR ''/'' \<and> c \<noteq> bslash \<and> c \<noteq> CHR ''.'' \<and> c \<noteq> CHR '':'' \<and>
      c \<noteq> CHR ''('' \<and> c \<noteq> CHR '')'' \<and> c \<noteq> CHR ''['' \<and> c \<noteq> CHR '']'' \<and>
      (py_isspace c \<longrightarrow> c = CHR '' '')" for c
    using Q alnum_space_excludes by (simp add: list_all_iff)
  then have nosep: "list_all (\<lambda>c. \<not> nt_is_sep c) t" and nodot: "list_all (\<lambda>c. \<not> c = CHR ''.'') t"
    and noparen: "CHR ''('' \<notin> set t" "CHR ''['' \<notin> set t"
    and ws: "list_all (\<lambda>c. py_isspace c \<longrightarrow> c = CHR '' '') t"
    by (auto simp: list_all_iff nt_is_sep_def)
  have norm: "nt_norm t = t"
    using nosep by (induction t) (auto simp: nt_norm_def nt_is_sep_def)
  have "take 2 t \<noteq> [bslash, bslash]"
    using nosep by (cases t rule: list.exhaust [case_product list.exhaust [of "tl t"]])
       (auto simp: nt_is_sep_def)
  moreover have "length t \<ge> 2 \<Longrightarrow> t ! 1 \<noteq> CHR '':''"
    using chars [of "t ! 1"] by simp
  moreover have "takeWhile (\<lambda>c. \<not> nt_is_sep c) (rev t) = rev t"
    using nosep by (simp add: takeWhile_eq_all_conv list_all_iff)
  then have "after_last_sep t = t"
    unfolding after_last_sep_def by (metis rev_rev_ident)
  ultimately have base: "nt_basename t = t"
    by (auto simp: nt_basename_def norm)
  have "splitext_root t = t"
    using rfind_from_none [OF nosep] rfind_from_none [OF nodot]
    by (simp add: splitext_root_def py_rfind_def)
  then show ?thesis
    using base noparen keep_alnum_space_id [OF Q] collapse_ws_id [OF ws nd] py_strip_id [OF edges] title
    by (simp add: smart_game_name_def remove_groups_id)
qed

subsection \<open>Properties\<close>

text \<open>
  C29. Shape of every title (specification section 8): the result consists of ASCII letters,
  digits and single spaces, has no space at either end, is in title case, and in
  particular contains none of the characters ( ) [ ].
\<close>

theorem smart_game_name_normalized:
  "normalized_title (smart_game_name p) \<and>
   set (smart_game_name p) \<inter> {CHR ''('', CHR '')'', CHR ''['', CHR '']''} = {}"
proof -
  have "list_all (\<lambda>c. is_ascii_alnum c \<or> c = CHR '' '') (smart_game_name p)"
    using smart_game_name_shape by (simp add: normalized_title_def)
  then have "c \<in> set (smart_game_name p) \<Longrightarrow> c \<notin> {CHR ''('', CHR '')'', CHR ''['', CHR '']''}" for c
    using alnum_space_excludes [of c] by (auto simp: list_all_iff)
  then show ?thesis using smart_game_name_shape by blast
qed

text \<open>
  C30. Normalizing is idempotent: a cleaned title, taken as a file name, cleans to itself
  (it has no directory, no extension, no groups, nothing to replace or collapse).
\<close>

theorem smart_game_name_idempotent:
  "smart_game_name (smart_game_name p) = smart_game_name p"
  by (rule normalized_title_fix [OF smart_game_name_shape])

end
