(* ===== verification/Metadata.thy ===== *)
theory Metadata
  imports PyRuntime
begin

text \<open>
  The metadata lookup, \<open>IGDBClient\<close> (src/main.py, lines 21-65), and the window's
  \<open>fetch_cover_url\<close> (lines 244-248). A value decoded by \<open>json\<close> is a \<open>json\<close>: the
  Python object \<open>json.load\<close> returns (numbers with a fraction or an exponent, which
  decode to \<open>float\<close>, are left out). An object is the decoded \<open>dict\<close>, its items in
  insertion order with distinct keys (\<open>json_wf\<close>). The operations the client applies
  to such values are modelled as Python defines them on each type: \<open>dict.get\<close>,
  subscription by a key and by 0, truthiness, and \<open>str\<close> (through \<open>repr\<close>) in an
  f-string.

  Each HTTP exchange is an \<open>http_outcome\<close>: a \<open>requests\<close> exception, or a response
  with its status, its text and the outcome of \<open>response.json()\<close>. The response is a
  parameter of the operation, so a theorem holds for whatever the server answers. The
  request the code builds is returned beside the result.
\<close>

subsection \<open>Decoded JSON values\<close>

datatype json = JNull | JBool bool | JInt int | JStr string | JArr "json list"
  | JObj "(string \<times> json) list"

fun json_wf :: "json \<Rightarrow> bool" where
  "json_wf (JArr xs) = list_all json_wf xs"
| "json_wf (JObj kvs) = (distinct (map fst kvs) \<and> list_all (\<lambda>kv. json_wf (snd kv)) kvs)"
| "json_wf _ = True"

fun py_type_name :: "json \<Rightarrow> string" where
  "py_type_name JNull = ''NoneType''"
| "py_type_name (JBool _) = ''bool''"
| "py_type_name (JInt _) = ''int''"
| "py_type_name (JStr _) = ''str''"
| "py_type_name (JArr _) = ''list''"
| "py_type_name (JObj _) = ''dict''"

fun py_truthy :: "json \<Rightarrow> bool" where
  "py_truthy JNull = False"
| "py_truthy (JBool b) = b"
| "py_truthy (JInt i) = (i \<noteq> 0)"
| "py_truthy (JStr s) = (s \<noteq> [])"
| "py_truthy (JArr xs) = (xs \<noteq> [])"
| "py_truthy (JObj kvs) = (kvs \<noteq> [])"

definition py_str_int :: "int \<Rightarrow> string" where
  "py_str_int i = (if i < 0 then CHR ''-'' # py_str_nat (nat (- i)) else py_str_nat (nat i))"

text \<open>\<open>repr\<close> of a decoded value, and \<open>str\<close>, which differs from it only on \<open>str\<close>.\<close>

fun py_repr_json :: "json \<Rightarrow> string" where
  "py_repr_json JNull = ''None''"
| "py_repr_json (JBool b) = (if b then ''True'' else ''False'')"
| "py_repr_json (JInt i) = py_str_int i"
| "py_repr_json (JStr s) = py_repr_str s"
| "py_repr_json (JArr xs) = ''['' @ join_with '', '' (map py_repr_json xs) @ '']''"
| "py_repr_json (JObj kvs) =
     ''{'' @ join_with '', '' (map (\<lambda>(k, v). py_repr_str k @ '': '' @ py_repr_json v) kvs) @ ''}''"

definition py_str_json :: "json \<Rightarrow> string" where
  "py_str_json v = (case v of JStr s \<Rightarrow> s | _ \<Rightarrow> py_repr_json v)"

text \<open>\<open>d.get(k, default)\<close>: only a \<open>dict\<close> has \<open>get\<close>.\<close>

definition py_get :: "json \<Rightarrow> string \<Rightarrow> json \<Rightarrow> py_error + json" where
  "py_get d k dflt =
     (case d of
        JObj kvs \<Rightarrow> Inr (case map_of kvs k of Some v \<Rightarrow> v | None \<Rightarrow> dflt)
      | _ \<Rightarrow> Inl (AttributeError (py_type_name d) ''get''))"

text \<open>\<open>d[k]\<close> for a \<open>str\<close> key (Python 3.12 messages).\<close>

definition py_getitem :: "json \<Rightarrow> string \<Rightarrow> py_error + json" where
  "py_getitem d k =
     (case d of
        JObj kvs \<Rightarrow> (case map_of kvs k of Some v \<Rightarrow> Inr v | None \<Rightarrow> Inl (KeyError (py_repr_str k)))
      | JArr _ \<Rightarrow> Inl (TypeError ''list indices must be integers or slices, not str'')
      | JStr _ \<Rightarrow> Inl (TypeError (''string indices must be integers, not '' @ [squote] @ ''str'' @ [squote]))
      | _ \<Rightarrow> Inl (TypeError ([squote] @ py_type_name d @ [squote] @ '' object is not subscriptable'')))"

text \<open>\<open>x[0]\<close>. A decoded \<open>dict\<close> has only \<open>str\<close> keys, so \<open>0\<close> is never one of them.\<close>

definition py_index0 :: "json \<Rightarrow> py_error + json" where
  "py_index0 x =
     (case x of
        JArr [] \<Rightarrow> Inl (IndexError ''list index out of range'')
      | JArr (v # _) \<Rightarrow> Inr v
      | JStr [] \<Rightarrow> Inl (IndexError ''string index out of range'')
      | JStr (c # _) \<Rightarrow> Inr (JStr [c])
      | JObj _ \<Rightarrow> Inl (KeyError ''0'')
      | _ \<Rightarrow> Inl (TypeError ([squote] @ py_type_name x @ [squote] @ '' object is not subscriptable'')))"

subsection \<open>HTTP exchanges\<close>

text \<open>
  \<open>Response status text body\<close>: \<open>body\<close> is what \<open>response.json()\<close> gives, the decoded
  value or the message of the \<open>JSONDecodeError\<close> it raises. \<open>response.ok\<close> is false
  exactly for the statuses \<open>raise_for_status\<close> rejects, 400 to 599.
\<close>

datatype http_outcome = Conn_error string | Response nat string "string + json"

definition response_ok :: "nat \<Rightarrow> bool" where
  "response_ok st \<longleftrightarrow> \<not> (400 \<le> st \<and> st < 600)"

definition response_json :: "string + json \<Rightarrow> py_error + json" where
  "response_json b = (case b of Inl m \<Rightarrow> Inl (JSONDecodeError m) | Inr j \<Rightarrow> Inr j)"

record igdb_client =
  client_id :: json
  client_secret :: json
  token :: json

text \<open>A POST request: URL, query parameters or headers, and body.\<close>

record http_request =
  req_url :: string
  req_params :: "(string \<times> json) list"
  req_headers :: "(string \<times> json) list"
  req_data :: string

subsection \<open>The client\<close>

text \<open>\<open>IGDBClient.get_cover_url(image_id, size)\<close> (lines 63-65).\<close>

definition get_cover_url :: "json \<Rightarrow> string \<Rightarrow> string" where
  "get_cover_url image_id sz =
     ''https://images.igdb.com/igdb/image/upload/t_'' @ sz @ ''/'' @ py_str_json image_id @ ''.jpg''"

text \<open>\<open>IGDBClient.get_token\<close> (lines 34-45): the request it posts and the client with
  its token, or the exception.\<close>

definition token_request :: "igdb_client \<Rightarrow> http_request" where
  "token_request c =
     \<lparr>req_url = ''https://id.twitch.tv/oauth2/token'',
      req_params = [(''client_id'', client_id c), (''client_secret'', client_secret c),
                    (''grant_type'', JStr ''client_credentials'')],
      req_headers = [], req_data = []\<rparr>"

definition get_token :: "igdb_client \<Rightarrow> http_outcome \<Rightarrow> http_request \<times> (py_error + igdb_client)" where
  "get_token c resp =
     (token_request c,
      case resp of
        Conn_error e \<Rightarrow> Inl (Requests_error e)
      | Response st txt body \<Rightarrow>
          if response_ok st then
            (case response_json body of
               Inl e \<Rightarrow> Inl e
             | Inr j \<Rightarrow> (case py_getitem j ''access_token'' of
                          Inl e \<Rightarrow> Inl e
                        | Inr t \<Rightarrow> Inr (c\<lparr>token := t\<rparr>)))
          else Inl (Exception (''Failed to get IGDB token: '' @ py_str_nat st @ '' '' @ txt)))"

text \<open>
  \<open>IGDBClient.__init__\<close> (lines 22-32). \<open>config\<close> is the outcome of opening and decoding
  config.json (an \<open>OSError\<close> or \<open>JSONDecodeError\<close>, or the decoded value); an exception
  in the \<open>try\<close> block is re-raised as \<open>Exception\<close> with its text, one from
  \<open>get_token\<close> propagates unchanged. The list holds the requests posted.
\<close>

definition load_config :: "py_error + json \<Rightarrow> py_error + json \<times> json" where
  "load_config config =
     (case config of
        Inl e \<Rightarrow> Inl e
      | Inr conf \<Rightarrow>
          (case py_get conf ''TWITCH_CLIENT_ID'' JNull of
             Inl e \<Rightarrow> Inl e
           | Inr cid \<Rightarrow> (case py_get conf ''TWITCH_CLIENT_SECRET'' JNull of
                          Inl e \<Rightarrow> Inl e
                        | Inr sec \<Rightarrow> Inr (cid, sec))))"

definition igdb_client_init ::
  "py_error + json \<Rightarrow> http_outcome \<Rightarrow> http_request list \<times> (py_error + igdb_client)" where
  "igdb_client_init config resp =
     (case load_config config of
        Inl e \<Rightarrow> ([], Inl (Exception (''Failed to load config.json: '' @ py_error_str e)))
      | Inr (cid, sec) \<Rightarrow>
          (case get_token \<lparr>client_id = cid, client_secret = sec, token = JNull\<rparr> resp of
             (rq, r) \<Rightarrow> ([rq], r)))"

text \<open>\<open>IGDBClient.search_game\<close> (lines 47-60). The title is interpolated into the body of
  the request between double quotes.\<close>

definition igdb_query :: "string \<Rightarrow> string" where
  "igdb_query game_name = ''search '' @ [dquote] @ game_name @ [dquote] @ ''; fields name,cover.image_id; limit 1;''"

definition search_request :: "igdb_client \<Rightarrow> string \<Rightarrow> http_request" where
  "search_request c game_name =
     \<lparr>req_url = ''https://api.igdb.com/v4/games'', req_params = [],
      req_headers = [(''Client-ID'', client_id c), (''Authorization'', JStr (''Bearer '' @ py_str_json (token c)))],
      req_data = igdb_query game_name\<rparr>"

record search_result =
  result_name :: json
  cover_url :: "string option"

definition first_result :: "json \<Rightarrow> py_error + search_result" where
  "first_result j =
     (case py_index0 j of
        Inl e \<Rightarrow> Inl e
      | Inr result \<Rightarrow>
          (case py_get result ''name'' (JStr []) of
             Inl e \<Rightarrow> Inl e
           | Inr name \<Rightarrow>
               (case py_get result ''cover'' (JObj []) of
                  Inl e \<Rightarrow> Inl e
                | Inr cover \<Rightarrow>
                    (case py_get cover ''image_id'' (JStr []) of
                       Inl e \<Rightarrow> Inl e
                     | Inr cover_id \<Rightarrow>
                         Inr \<lparr>result_name = name,
                              cover_url = (if py_truthy cover_id then Some (get_cover_url cover_id ''cover_big'')
                                           else None)\<rparr>))))"

definition search_game ::
  "igdb_client \<Rightarrow> string \<Rightarrow> http_outcome \<Rightarrow> http_request \<times> (py_error + search_result option)" where
  "search_game c game_name resp =
     (search_request c game_name,
      case resp of
        Conn_error e \<Rightarrow> Inl (Requests_error e)
      | Response st txt body \<Rightarrow>
          if response_ok st then
            (case response_json body of
               Inl e \<Rightarrow> Inl e
             | Inr j \<Rightarrow>
                 if py_truthy j then
                   (case first_result j of Inl e \<Rightarrow> Inl e | Inr r \<Rightarrow> Inr (Some r))
                 else Inr None)
          else Inr None)"

text \<open>\<open>GameDiscBurner.fetch_cover_url\<close> (lines 244-248): the cover URL, or "" when the
  lookup found nothing or no cover.\<close>

definition fetch_cover_url :: "igdb_client \<Rightarrow> string \<Rightarrow> http_outcome \<Rightarrow> http_request \<times> (py_error + string)" where
  "fetch_cover_url c game_name resp =
     (case search_game c game_name resp of
        (rq, Inl e) \<Rightarrow> (rq, Inl e)
      | (rq, Inr None) \<Rightarrow> (rq, Inr [])
      | (rq, Inr (Some r)) \<Rightarrow>
          (rq, Inr (case cover_url r of Some u \<Rightarrow> if u \<noteq> [] then u else [] | None \<Rightarrow> [])))"

subsection \<open>Reading requests and URLs back\<close>

text \<open>
  What the server reads from a search body: the text between the first two double quotes,
  provided the rest is the fixed field list. A title holding a double quote ends the string
  early, and the rest of the title becomes query syntax.
\<close>

definition search_query_prefix :: string where
  "search_query_prefix = ''search '' @ [dquote]"

definition search_query_suffix :: string where
  "search_query_suffix = [dquote] @ ''; fields name,cover.image_id; limit 1;''"

definition parse_search_query :: "string \<Rightarrow> string option" where
  "parse_search_query q =
     (if take (length search_query_prefix) q = search_query_prefix then
        (let r = drop (length search_query_prefix) q;
             t = takeWhile (\<lambda>c. c \<noteq> dquote) r
         in if drop (length t) r = search_query_suffix then Some t else None)
      else None)"

definition cover_url_prefix :: string where
  "cover_url_prefix = ''https://images.igdb.com/igdb/image/upload/t_cover_big/''"

definition cover_image_id :: "string \<Rightarrow> string option" where
  "cover_image_id u =
     (if take (length cover_url_prefix) u = cover_url_prefix \<and>
         length cover_url_prefix + 4 \<le> length u \<and> drop (length u - 4) u = ''.jpg''
      then Some (take (length u - length cover_url_prefix - 4) (drop (length cover_url_prefix) u))
      else None)"

text \<open>The answers of the games endpoint that \<open>search_game\<close> can read: a list whose first
  entry is an object, with no "cover" or an object as "cover".\<close>

definition igdb_answer_shape :: "json \<Rightarrow> bool" where
  "igdb_answer_shape j \<longleftrightarrow>
     (case j of
        JArr (JObj kvs # _) \<Rightarrow>
          (case map_of kvs ''cover'' of None \<Rightarrow> True | Some (JObj _) \<Rightarrow> True | Some _ \<Rightarrow> False)
      | _ \<Rightarrow> False)"

definition dict_get :: "(string \<times> json) list \<Rightarrow> string \<Rightarrow> json" where
  "dict_get kvs k = (case map_of kvs k of Some v \<Rightarrow> v | None \<Rightarrow> JNull)"

subsection \<open>Lemmas\<close>

lemma get_cover_url_nonempty [simp]: "get_cover_url v sz \<noteq> []"
  by (simp add: get_cover_url_def)

lemma cover_url_roundtrip:
  "cover_image_id (get_cover_url (JStr i) ''cover_big'') = Some i"
  by (simp add: cover_image_id_def get_cover_url_def cover_url_prefix_def py_str_json_def)

lemma first_result_Inr_iff:
  assumes "py_truthy j"
  shows "(\<exists>r. first_result j = Inr r) \<longleftrightarrow> igdb_answer_shape j"
proof (cases j)
  case (JArr xs)
  then show ?thesis using assms
    by (cases xs) (auto simp: first_result_def igdb_answer_shape_def py_index0_def py_get_def
                        split: json.splits option.splits)
next
  case (JStr s)
  then show ?thesis using assms
    by (cases s) (auto simp: first_result_def igdb_answer_shape_def py_index0_def py_get_def)
qed (use assms in \<open>auto simp: first_result_def igdb_answer_shape_def py_index0_def\<close>)

lemma takeWhile_upto:
  "x \<notin> set a \<Longrightarrow> takeWhile (\<lambda>c. c \<noteq> x) (a @ x # r) = a"
  by (induction a) auto

lemma parse_search_query_split:
  assumes "dquote \<notin> set a"
  shows "parse_search_query (search_query_prefix @ a @ dquote # r) =
           (if dquote # r = search_query_suffix then Some a else None)"
  using assms by (simp add: parse_search_query_def takeWhile_upto)

lemma igdb_query_split: "igdb_query t = search_query_prefix @ t @ search_query_suffix"
  by (simp add: igdb_query_def search_query_prefix_def search_query_suffix_def)

lemma igdb_query_parses:
  "dquote \<notin> set t \<Longrightarrow> parse_search_query (igdb_query t) = Some t"
  using parse_search_query_split [of t] by (simp add: igdb_query_split search_query_suffix_def)

subsection \<open>Properties\<close>

text \<open>
  C12. \<open>search_game\<close> raises exactly when the request itself fails (a \<open>requests\<close>
  exception), when an accepted response is not JSON, or when a non-empty accepted answer
  is not a list whose first entry is an object with an object or nothing as "cover".
  The specification says the lookup fails open on any network error; the code does not
  catch the exceptions of \<open>requests.post\<close>.
\<close>

theorem search_game_raises:
  "(\<exists>e. snd (search_game c n r) = Inl e) \<longleftrightarrow>
     (\<exists>e. r = Conn_error e) \<or>
     (\<exists>st t m. r = Response st t (Inl m) \<and> response_ok st) \<or>
     (\<exists>st t j. r = Response st t (Inr j) \<and> response_ok st \<and> py_truthy j \<and> \<not> igdb_answer_shape j)"
proof (cases r)
  case (Response st t b)
  show ?thesis
  proof (cases b)
    case (Inr j)
    have "(\<exists>e. first_result j = Inl e) \<longleftrightarrow> \<not> (\<exists>r. first_result j = Inr r)"
      by (cases "first_result j") auto
    then show ?thesis using Response Inr first_result_Inr_iff [of j]
      by (auto simp: search_game_def response_json_def split: sum.splits)
  qed (use Response in \<open>simp add: search_game_def response_json_def\<close>)
qed (simp add: search_game_def)

theorem search_game_raises_witness:
  "snd (search_game \<lparr>client_id = JStr ''id'', client_secret = JStr ''secret'', token = JStr ''tok''\<rparr> ''Halo''
          (Response 200 [] (Inr (JArr [JObj [(''cover'', JInt 5)]])))) = Inl (AttributeError ''int'' ''get'') \<and>
   (\<exists>e. snd (search_game \<lparr>client_id = JStr ''id'', client_secret = JStr ''secret'', token = JStr ''tok''\<rparr> ''Halo''
          (Conn_error ''Read timed out.'')) = Inl e)"
  using search_game_raises [of "\<lparr>client_id = JStr ''id'', client_secret = JStr ''secret'', token = JStr ''tok''\<rparr>"
      "''Halo''" "Conn_error ''Read timed out.''"]
  by (simp add: search_game_def response_ok_def response_json_def first_result_def py_index0_def py_get_def)

text \<open>
  C13. \<open>search_game\<close> returns "no result" exactly for a rejected status (400-599) and for
  an accepted answer that decodes to a falsy value (empty list, empty object, empty
  string, 0, false, null).
\<close>

theorem search_game_fails_open:
  "snd (search_game c n r) = Inr None \<longleftrightarrow>
     (\<exists>st t b. r = Response st t b \<and> (\<not> response_ok st \<or> (\<exists>j. b = Inr j \<and> \<not> py_truthy j)))"
  by (auto simp: search_game_def response_json_def split: http_outcome.splits sum.splits)

theorem search_game_fails_open_witness:
  "snd (search_game \<lparr>client_id = JStr ''id'', client_secret = JStr ''secret'', token = JStr ''tok''\<rparr> ''Halo''
          (Response 404 ''Not Found'' (Inl ''Expecting value''))) = Inr None"
  using search_game_fails_open [of "\<lparr>client_id = JStr ''id'', client_secret = JStr ''secret'', token = JStr ''tok''\<rparr>"
      "''Halo''" "Response 404 ''Not Found'' (Inl ''Expecting value'')"]
  by (simp add: response_ok_def)

text \<open>
  C14. For an answer whose first entry has a cover object with a non-empty string
  \<open>image_id\<close>, \<open>fetch_cover_url\<close> returns the IGDB URL of that image at size
  \<open>cover_big\<close>, and the image id can be read back from the URL.
\<close>

theorem fetch_cover_url_found:
  assumes "response_ok st" and "map_of kvs ''cover'' = Some (JObj ckvs)"
    and "map_of ckvs ''image_id'' = Some (JStr i)" and "i \<noteq> []"
  shows "snd (fetch_cover_url c n (Response st t (Inr (JArr (JObj kvs # rest))))) =
           Inr (get_cover_url (JStr i) ''cover_big'') \<and>
         cover_image_id (get_cover_url (JStr i) ''cover_big'') = Some i"
  using assms
  by (simp add: fetch_cover_url_def search_game_def response_json_def first_result_def py_index0_def
      py_get_def cover_url_roundtrip)

theorem fetch_cover_url_found_witness:
  "snd (fetch_cover_url \<lparr>client_id = JStr ''id'', client_secret = JStr ''secret'', token = JStr ''tok''\<rparr> ''Halo''
     (Response 200 [] (Inr (JArr [JObj [(''id'', JInt 740), (''cover'', JObj [(''id'', JInt 1), (''image_id'', JStr ''co1abc'')]),
                                         (''name'', JStr ''Halo: Combat Evolved'')]])))) =
   Inr ''https://images.igdb.com/igdb/image/upload/t_cover_big/co1abc.jpg''"
  using fetch_cover_url_found [of 200 "[(''id'', JInt 740), (''cover'', JObj [(''id'', JInt 1), (''image_id'', JStr ''co1abc'')]),
                                         (''name'', JStr ''Halo: Combat Evolved'')]"
      "[(''id'', JInt 1), (''image_id'', JStr ''co1abc'')]" "''co1abc''"
      "\<lparr>client_id = JStr ''id'', client_secret = JStr ''secret'', token = JStr ''tok''\<rparr>" "''Halo''" "[]" "[]"]
  by (simp add: response_ok_def get_cover_url_def py_str_json_def)

text \<open>
  C15. \<open>IGDBClient()\<close> succeeds exactly when config.json decodes to an object and the
  token endpoint accepts the request with an object holding "access_token"; the client then
  holds the configured id and secret (\<open>None\<close> when absent) and that token.
\<close>

theorem igdb_client_init_ok:
  "snd (igdb_client_init config r) = Inr c \<longleftrightarrow>
     (\<exists>conf st t kvs. config = Inr (JObj conf) \<and> r = Response st t (Inr (JObj kvs)) \<and> response_ok st \<and>
        map_of kvs ''access_token'' = Some (token c) \<and>
        client_id c = dict_get conf ''TWITCH_CLIENT_ID'' \<and>
        client_secret c = dict_get conf ''TWITCH_CLIENT_SECRET'')"
  by (cases c)
     (auto simp: igdb_client_init_def load_config_def get_token_def py_get_def py_getitem_def
        response_json_def dict_get_def
        split: sum.splits json.splits http_outcome.splits option.splits if_splits)

end
