(* ===== verification/Settings.thy ===== *)
theory Settings
  imports Metadata "HOL-Library.AList"
begin

text \<open>
  The settings: the module src/settings.py, its \<open>get_theme\<close>, and the window's use of
  it in src/main.py: \<open>SettingsDialog\<close> (lines 84-114), \<open>open_settings\<close> (180-182) and
  \<open>apply_theme\<close> (184-188). A module is its namespace, an association list from names to
  values; reading a name it lacks raises \<open>AttributeError\<close>, assigning one updates or
  adds it. Values are \<open>json\<close> values (the tuple \<open>WINDOW_SIZE\<close> as a list); the function
  \<open>get_theme\<close> is not a value of the namespace here but the definition below.

  settings.py defines neither \<open>FONT_SIZE\<close> nor \<open>save\<close>, both of which the dialog uses.
\<close>

type_synonym py_module = "(string \<times> json) list"

definition module_getattr :: "py_module \<Rightarrow> string \<Rightarrow> py_error + json" where
  "module_getattr m a =
     (case map_of m a of Some v \<Rightarrow> Inr v | None \<Rightarrow> Inl (ModuleAttributeError ''settings'' a))"

definition theme_colours :: "string list \<Rightarrow> json" where
  "theme_colours vs =
     JObj (zip [''background'', ''text'', ''highlight'', ''border'', ''button'', ''button_text''] (map JStr vs))"

text \<open>The module as shipped (settings.py, lines 4-55), in the order of its assignments.\<close>

definition settings_py :: py_module where
  "settings_py =
     [(''APP_NAME'', JStr ''Game Disc Burner''),
      (''WINDOW_SIZE'', JArr [JInt 600, JInt 460]),
      (''THEME'', JStr ''dark''),
      (''THEMES'', JObj
         [(''dark'', theme_colours [''#222222'', ''#DDDDDD'', ''#00FF00'', ''1px solid #444'', ''#333333'', ''#FFFFFF'']),
          (''light'', theme_colours [''#FFFFFF'', ''#000000'', ''#0000FF'', ''1px solid #CCC'', ''#EEEEEE'', ''#000000''])]),
      (''IMGBURN_PATH'', JStr (''C:'' @ [bslash] @ ''Program Files (x86)'' @ [bslash] @ ''ImgBurn'' @ [bslash] @ ''ImgBurn.exe'')),
      (''PAYLOAD_FOLDER'', JStr ''payload''),
      (''CONFIG_FILE'', JStr ''config.json''),
      (''LOG_FILE'', JStr ''burn_log.txt''),
      (''LAST_PATH_FILE'', JStr ''last_path.txt''),
      (''DEFAULT_BURN_SPEED'', JInt 4),
      (''AUTO_PATCH_PS2'', JBool True),
      (''SHOW_INSTRUCTIONS_AFTER_BURN'', JBool True),
      (''AUTO_DOWNLOAD_BOX_ART'', JBool True),
      (''REMEMBER_LAST_PATH'', JBool True),
      (''ENABLE_ANIMATIONS'', JBool False),
      (''LANGUAGE'', JStr ''en''),
      (''DEFAULT_CONSOLE'', JStr ''PS2''),
      (''AUTO_SELECT_SINGLE_DRIVE'', JBool True),
      (''SHOW_CONFIRMATION_BEFORE_BURN'', JBool True),
      (''DEBUG_MODE'', JBool False),
      (''AUTO_EJECT_AFTER_BURN'', JBool False),
      (''ALLOW_NETWORK_LOOKUPS'', JBool True)]"

text \<open>A global name read inside settings.py: \<open>NameError\<close> when the module lacks it.\<close>

definition module_global :: "py_module \<Rightarrow> string \<Rightarrow> py_error + json" where
  "module_global m a = (case map_of m a of Some v \<Rightarrow> Inr v | None \<Rightarrow> Inl (NameError a))"

text \<open>
  \<open>get_theme()\<close> (settings.py, lines 29-30): \<open>THEMES.get(THEME, THEMES["dark"])\<close>.
  Python looks up \<open>THEMES.get\<close> first, then evaluates the arguments left to right. A
  \<open>str\<close> key is looked up; a list or dict key is unhashable; any other key equals no
  \<open>str\<close> key, so the default is returned.
\<close>

definition get_theme :: "py_module \<Rightarrow> py_error + json" where
  "get_theme m =
     (case module_global m ''THEMES'' of
        Inl e \<Rightarrow> Inl e
      | Inr themes \<Rightarrow>
          (case themes of
             JObj kvs \<Rightarrow>
               (case module_global m ''THEME'' of
                  Inl e \<Rightarrow> Inl e
                | Inr theme \<Rightarrow>
                    (case py_getitem themes ''dark'' of
                       Inl e \<Rightarrow> Inl e
                     | Inr dflt \<Rightarrow>
                         (case theme of
                            JStr k \<Rightarrow> Inr (case map_of kvs k of Some v \<Rightarrow> v | None \<Rightarrow> dflt)
                          | JArr _ \<Rightarrow> Inl (TypeError (''unhashable type: '' @ [squote] @ ''list'' @ [squote]))
                          | JObj _ \<Rightarrow> Inl (TypeError (''unhashable type: '' @ [squote] @ ''dict'' @ [squote]))
                          | _ \<Rightarrow> Inr dflt)))
           | _ \<Rightarrow> Inl (AttributeError (py_type_name themes) ''get'')))"

text \<open>
  A non-editable \<open>QComboBox\<close>: its items and the index of the current one.
  \<open>setCurrentText\<close> selects the first item equal to the text and otherwise leaves the
  selection; PyQt6 rejects an argument that is not a \<open>str\<close> with \<open>TypeError\<close>.
\<close>

fun list_index :: "'a list \<Rightarrow> 'a \<Rightarrow> nat" where
  "list_index [] x = 0"
| "list_index (y # ys) x = (if y = x then 0 else Suc (list_index ys x))"

record combo_box =
  items :: "string list"
  current :: nat

definition combo_add_items :: "string list \<Rightarrow> combo_box" where
  "combo_add_items xs = \<lparr>items = xs, current = 0\<rparr>"

definition combo_set_current_text :: "combo_box \<Rightarrow> json \<Rightarrow> py_error + combo_box" where
  "combo_set_current_text b v =
     (case v of
        JStr t \<Rightarrow> Inr (if t \<in> set (items b) then b\<lparr>current := list_index (items b) t\<rparr> else b)
      | _ \<Rightarrow> Inl (TypeError (''setCurrentText(self, text: Optional[str]): argument 1 has unexpected type '' @
                             [squote] @ py_type_name v @ [squote])))"

definition combo_current_text :: "combo_box \<Rightarrow> string" where
  "combo_current_text b = (if current b < length (items b) then items b ! current b else [])"

text \<open>The user picks the \<open>i\<close>-th item.\<close>

definition combo_pick :: "combo_box \<Rightarrow> nat \<Rightarrow> combo_box" where
  "combo_pick b i = (if i < length (items b) then b\<lparr>current := i\<rparr> else b)"

record settings_dialog =
  theme_box :: combo_box
  font_size_box :: combo_box

text \<open>\<open>SettingsDialog.__init__\<close> (lines 85-107): \<open>str(settings.FONT_SIZE)\<close> is
  evaluated after the theme box is filled.\<close>

definition settings_dialog_init :: "py_module \<Rightarrow> py_error + settings_dialog" where
  "settings_dialog_init m =
     (case module_getattr m ''THEME'' of
        Inl e \<Rightarrow> Inl e
      | Inr theme \<Rightarrow>
          (case combo_set_current_text (combo_add_items [''light'', ''dark'']) theme of
             Inl e \<Rightarrow> Inl e
           | Inr tb \<Rightarrow>
               (case module_getattr m ''FONT_SIZE'' of
                  Inl e \<Rightarrow> Inl e
                | Inr fs \<Rightarrow>
                    (case combo_set_current_text (combo_add_items [''10'', ''12'', ''14'', ''16''])
                            (JStr (py_str_json fs)) of
                       Inl e \<Rightarrow> Inl e
                     | Inr fb \<Rightarrow> Inr \<lparr>theme_box = tb, font_size_box = fb\<rparr>))))"

text \<open>
  \<open>SettingsDialog.save_settings\<close> (lines 109-114): the two assignments to the module
  happen before \<open>settings.save()\<close> is looked up. The items of the font box are all
  decimal, so \<open>int()\<close> of the current text succeeds.
\<close>

definition parse_decimal :: "string \<Rightarrow> int" where
  "parse_decimal t = int (foldl (\<lambda>n c. 10 * n + (of_char c - 48)) 0 t)"

definition save_settings :: "py_module \<Rightarrow> settings_dialog \<Rightarrow> effect list \<times> py_module \<times> (py_error + unit)" where
  "save_settings m dlg =
     (let m = AList.update ''THEME'' (JStr (combo_current_text (theme_box dlg))) m;
          m = AList.update ''FONT_SIZE'' (JInt (parse_decimal (combo_current_text (font_size_box dlg)))) m
      in case map_of m ''save'' of
           None \<Rightarrow> ([], m, Inl (ModuleAttributeError ''settings'' ''save''))
         | Some _ \<Rightarrow> ([Dialog Information ''Saved'' ''Changes saved. Restart app to apply.''], m, Inr ()))"

text \<open>How the user leaves the modal dialog: Cancel, or OK after picking an item of the
  theme box and of the font size box by index (an index past the end picks nothing, and
  the box keeps its item).\<close>

datatype dialog_answer = Dlg_cancel | Dlg_ok nat nat

text \<open>\<open>GameDiscBurner.open_settings\<close> (lines 180-182): the dialog is built, then
  \<open>exec()\<close> runs it; OK calls \<open>save_settings\<close>.\<close>

definition open_settings :: "py_module \<Rightarrow> dialog_answer \<Rightarrow> effect list \<times> py_module \<times> (py_error + unit)" where
  "open_settings m ans =
     (case settings_dialog_init m of
        Inl e \<Rightarrow> ([], m, Inl e)
      | Inr dlg \<Rightarrow>
          (case ans of
             Dlg_cancel \<Rightarrow> ([], m, Inr ())
           | Dlg_ok ti fi \<Rightarrow>
               save_settings m (dlg\<lparr>theme_box := combo_pick (theme_box dlg) ti,
                                     font_size_box := combo_pick (font_size_box dlg) fi\<rparr>)))"

text \<open>\<open>GameDiscBurner.apply_theme\<close> (lines 184-188): the window's style sheet.\<close>

definition apply_theme :: "py_module \<Rightarrow> py_error + string" where
  "apply_theme m =
     (case module_getattr m ''THEME'' of
        Inl e \<Rightarrow> Inl e
      | Inr theme \<Rightarrow> Inr (if theme = JStr ''dark'' then ''background-color: #1e1e1e; color: white;'' else []))"

subsection \<open>Lemmas\<close>

lemma settings_py_attrs [simp]:
  "map_of settings_py ''THEME'' = Some (JStr ''dark'')"
  "map_of settings_py ''FONT_SIZE'' = None"
  "map_of settings_py ''save'' = None"
  by (simp_all add: settings_py_def)

lemma settings_dialog_init_no_font:
  assumes "map_of m ''FONT_SIZE'' = None" and "map_of m ''THEME'' = Some (JStr t)"
  shows "settings_dialog_init m = Inl (ModuleAttributeError ''settings'' ''FONT_SIZE'')"
  using assms by (simp add: settings_dialog_init_def module_getattr_def combo_set_current_text_def)

lemma open_settings_no_font:
  assumes "map_of m ''FONT_SIZE'' = None" and "map_of m ''THEME'' = Some (JStr t)"
  shows "open_settings m ans = ([], m, Inl (ModuleAttributeError ''settings'' ''FONT_SIZE''))"
  using settings_dialog_init_no_font [OF assms] by (simp add: open_settings_def)

lemma font_size_cases:
  assumes "n \<in> {10, 12, 14, 16}"
  obtains "n = 10" | "n = 12" | "n = 14" | "n = 16"
  using assms by blast

lemma parse_decimal_font_sizes:
  "n \<in> {10, 12, 14, 16} \<Longrightarrow> parse_decimal (py_str_json (JInt n)) = n"
  by (erule font_size_cases) (simp_all add: parse_decimal_def py_str_json_def py_str_int_def py_simps)

lemma settings_dialog_init_shows:
  assumes "map_of m ''THEME'' = Some (JStr t)" and "t \<in> {''light'', ''dark''}"
    and "map_of m ''FONT_SIZE'' = Some (JInt n)" and "n \<in> {10, 12, 14, 16}"
  shows "\<exists>dlg. settings_dialog_init m = Inr dlg \<and> combo_current_text (theme_box dlg) = t \<and>
           combo_current_text (font_size_box dlg) = py_str_json (JInt n)"
proof -
  have "py_str_json (JInt n) \<in> set [''10'', ''12'', ''14'', ''16'']"
    using assms(4) by (rule font_size_cases) (simp_all add: py_str_json_def py_str_int_def py_simps)
  then show ?thesis
    using assms(1-3)
    by (auto simp: settings_dialog_init_def module_getattr_def combo_set_current_text_def
        combo_add_items_def combo_current_text_def py_str_json_def)
qed

subsection \<open>Properties\<close>

text \<open>
  C16. The settings dialog can never be opened: for any module that, like settings.py,
  has a \<open>str\<close> \<open>THEME\<close> and no \<open>FONT_SIZE\<close>, \<open>open_settings\<close> raises
  \<open>AttributeError: module 'settings' has no attribute 'FONT_SIZE'\<close> before the dialog
  appears, shows nothing and leaves the module unchanged.
\<close>

theorem open_settings_raises:
  assumes "map_of m ''FONT_SIZE'' = None" and "map_of m ''THEME'' = Some (JStr t)"
  shows "open_settings m ans = ([], m, Inl (ModuleAttributeError ''settings'' ''FONT_SIZE''))"
  using settings_dialog_init_no_font [OF assms] by (simp add: open_settings_def)

theorem open_settings_raises_witness:
  "open_settings settings_py Dlg_cancel = ([], settings_py, Inl (ModuleAttributeError ''settings'' ''FONT_SIZE''))"
  using open_settings_raises [of settings_py "''dark''" Dlg_cancel] by simp

text \<open>
  C17. Were \<open>FONT_SIZE\<close> defined, OK would still fail on the missing \<open>settings.save\<close>,
  and only after both module variables were assigned: the module ends with the chosen
  theme and font size although the save raised and no "Saved" dialog was shown.
\<close>

theorem save_settings_partial:
  assumes "map_of m ''save'' = None"
  shows "save_settings m dlg =
           ([], AList.update ''FONT_SIZE'' (JInt (parse_decimal (combo_current_text (font_size_box dlg))))
                  (AList.update ''THEME'' (JStr (combo_current_text (theme_box dlg))) m),
            Inl (ModuleAttributeError ''settings'' ''save''))"
  using assms by (simp add: save_settings_def update_conv')

theorem save_settings_partial_witness:
  "fst (snd (save_settings settings_py \<lparr>theme_box = \<lparr>items = [''light'', ''dark''], current = 0\<rparr>,
                                        font_size_box = \<lparr>items = [''10'', ''12'', ''14'', ''16''], current = 2\<rparr>\<rparr>))
     \<noteq> settings_py"
proof -
  let ?d = "\<lparr>theme_box = \<lparr>items = [''light'', ''dark''], current = 0\<rparr>,
             font_size_box = \<lparr>items = [''10'', ''12'', ''14'', ''16''], current = 2\<rparr>\<rparr>"
  have "map_of (fst (snd (save_settings settings_py ?d))) ''THEME'' = Some (JStr ''light'')"
    using save_settings_partial [of settings_py ?d]
    by (simp add: update_conv' combo_current_text_def)
  then show ?thesis by auto
qed

text \<open>
  C19. \<open>get_theme\<close> on settings.py with any string as \<open>THEME\<close> returns the light palette
  for "light" and the dark palette otherwise.
\<close>

theorem get_theme_palette:
  "get_theme (AList.update ''THEME'' (JStr t) settings_py) =
     Inr (if t = ''light''
          then theme_colours [''#FFFFFF'', ''#000000'', ''#0000FF'', ''1px solid #CCC'', ''#EEEEEE'', ''#000000'']
          else theme_colours [''#222222'', ''#DDDDDD'', ''#00FF00'', ''1px solid #444'', ''#333333'', ''#FFFFFF''])"
  by (simp add: get_theme_def module_global_def settings_py_def py_getitem_def)

text \<open>
  C18. Round trip of the dialog, for a module with \<open>FONT_SIZE\<close> and \<open>save\<close> defined: the
  boxes open on the module's theme and font size, and OK without a change saves the
  same values back, so the module's namespace is unchanged.
\<close>

theorem settings_dialog_roundtrip:
  assumes "map_of m ''THEME'' = Some (JStr t)" and "t \<in> {''light'', ''dark''}"
    and "map_of m ''FONT_SIZE'' = Some (JInt n)" and "n \<in> {10, 12, 14, 16}"
    and "map_of m ''save'' = Some f"
  shows "\<exists>dlg. settings_dialog_init m = Inr dlg \<and> map_of (fst (snd (save_settings m dlg))) = map_of m"
proof -
  obtain dlg where d: "settings_dialog_init m = Inr dlg" and th: "combo_current_text (theme_box dlg) = t"
    and fs: "combo_current_text (font_size_box dlg) = py_str_json (JInt n)"
    using settings_dialog_init_shows [OF assms(1-4)] by blast
  have "map_of (fst (snd (save_settings m dlg))) = map_of m"
    using assms(1,3,5) th fs parse_decimal_font_sizes [OF assms(4)]
    by (simp add: save_settings_def update_conv' Let_def map_upd_triv)
  with d show ?thesis by blast
qed

theorem settings_dialog_roundtrip_witness:
  "\<exists>dlg. settings_dialog_init (settings_py @ [(''FONT_SIZE'', JInt 12), (''save'', JNull)]) = Inr dlg \<and>
     map_of (fst (snd (save_settings (settings_py @ [(''FONT_SIZE'', JInt 12), (''save'', JNull)]) dlg))) =
     map_of (settings_py @ [(''FONT_SIZE'', JInt 12), (''save'', JNull)])"
  by (rule settings_dialog_roundtrip [of _ "''dark''" 12 JNull]) (simp_all add: map_of_append map_add_def)

end
