(* ===== verification/App.thy ===== *)
theory App
  imports Burn Normalizer Metadata Settings
begin

text \<open>
  The main window, \<open>GameDiscBurner\<close> (src/main.py), as a state machine. The state is
  the part of the object the slots read and write: \<open>selected_game_path\<close>,
  \<open>selected_console\<close>, the texts of \<open>label_console\<close>, \<open>label_description\<close> and
  \<open>label_image\<close>, whether \<open>btn_burn\<close> is enabled, \<open>img_thread\<close> (represented by
  the URL it downloads), \<open>igdb\<close> and the window's style sheet, plus what the process
  holds beyond the object: the namespace of the module \<open>settings\<close>, the requests posted
  to IGDB, the download threads still running, and whether the process is still alive (an
  exception escaping a slot makes PyQt6 abort).

  The handlers are functions on this state: \<open>select_file\<close> (lines 219-231) with
  \<open>load_game_art\<close> (lines 233-242), \<open>on_art_loaded\<close> (lines 250-257),
  \<open>ImageDownloadThread.run\<close> (lines 73-82) and the burn button (\<open>burn_game\<close>, theory
  \<open>Burn\<close>), the gear button (\<open>open_settings\<close>, theory \<open>Settings\<close>), and the
  start of the window, \<open>__init__\<close> with \<open>IGDBClient()\<close> and \<open>apply_theme\<close>
  (lines 116-178). The outside world enters as parameters of the steps: the file the picker
  returns, the answer of the IGDB search endpoint, the outcome of each image download, the
  world of a burn. \<open>app_step\<close> relates a state to every state one event can lead to;
  threads finish in any order.

  \<open>QLabel.setPixmap\<close> clears the label's previous content, so the "Loading box art..."
  text that \<open>load_game_art\<close> sets is replaced at once by an empty pixmap.
\<close>

datatype pixmap = Null_pixmap | Image string

datatype img_label = Label_text string | Label_pixmap pixmap

text \<open>The outcome of \<open>requests.get(url)\<close> in the download thread: an exception (network
  error, HTTP error status), or a body that does or does not decode as an image.\<close>

datatype get_outcome = Get_raises | Get_body bool

record app_state =
  selected_game_path :: "string option"
  selected_console :: "console option"
  label_console :: string
  label_description :: string
  label_image :: img_label
  burn_enabled :: bool
  style_sheet :: string
  img_thread :: "string option"
  igdb :: igdb_client
  posted :: "http_request list"
  settings_mod :: py_module
  running_downloads :: "string list"
  alive :: bool

text \<open>\<open>GameDiscBurner.__init__\<close> (lines 116-178): the state after the widgets are built,
  for the client \<open>IGDBClient()\<close> returned, the requests it posted, the settings module and
  the style sheet \<open>apply_theme\<close> set. When the client raises, the "IGDB Init Failed"
  dialog and \<open>sys.exit(1)\<close>; when \<open>apply_theme\<close> raises, the exception leaves
  \<open>main\<close>; either way there is no window.\<close>

definition init_state :: "igdb_client \<Rightarrow> http_request list \<Rightarrow> py_module \<Rightarrow> string \<Rightarrow> app_state" where
  "init_state c rqs m sheet =
     \<lparr>selected_game_path = None, selected_console = None,
      label_console = ''Detected Console: None'', label_description = ''No game selected'',
      label_image = Label_text [], burn_enabled = False, style_sheet = sheet, img_thread = None,
      igdb = c, posted = rqs, settings_mod = m, running_downloads = [], alive = True\<rparr>"

definition window_init ::
  "py_error + json \<Rightarrow> http_outcome \<Rightarrow> py_module \<Rightarrow> effect list \<times> app_state option" where
  "window_init config token_resp m =
     (case igdb_client_init config token_resp of
        (rqs, Inl e) \<Rightarrow> ([Dialog Critical ''IGDB Init Failed'' (py_error_str e)], None)
      | (rqs, Inr c) \<Rightarrow>
          (case apply_theme m of
             Inl e \<Rightarrow> ([], None)
           | Inr sheet \<Rightarrow> ([], Some (init_state c rqs m sheet))))"

text \<open>\<open>ImageDownloadThread.run\<close>: \<open>requests.get('')\<close> raises (no URL scheme), so an
  empty URL always yields the null pixmap.\<close>

definition image_download_run :: "string \<Rightarrow> get_outcome \<Rightarrow> pixmap" where
  "image_download_run url r =
     (if url = [] then Null_pixmap
      else (case r of Get_raises \<Rightarrow> Null_pixmap | Get_body decodes \<Rightarrow> if decodes then Image url else Null_pixmap))"

definition load_game_art :: "app_state \<Rightarrow> string \<Rightarrow> http_outcome \<Rightarrow> app_state" where
  "load_game_art s game_name resp =
     (let s = s\<lparr>label_image := Label_text ''Loading box art...''\<rparr>;
          s = s\<lparr>label_image := Label_pixmap Null_pixmap\<rparr>;
          (rq, fetched) = fetch_cover_url (igdb s) game_name resp;
          s = s\<lparr>posted := posted s @ [rq]\<rparr>
      in case fetched of
           Inl _ \<Rightarrow> s\<lparr>label_image := Label_text ''Failed to load art.''\<rparr>
         | Inr url \<Rightarrow> s\<lparr>img_thread := Some url, running_downloads := running_downloads s @ [url]\<rparr>)"

definition select_file :: "app_state \<Rightarrow> string \<Rightarrow> http_outcome \<Rightarrow> app_state" where
  "select_file s file_path resp =
     (if file_path = [] then s
      else
        (let cleaned_name = smart_game_name file_path;
             console = detect_console file_path;
             s = s\<lparr>selected_game_path := Some file_path, selected_console := Some console,
                   label_console := ''Detected Console: '' @ console_name console,
                   label_description := ''Detected Game Title: '' @ cleaned_name\<rparr>;
             s = load_game_art s cleaned_name resp
         in s\<lparr>burn_enabled := True\<rparr>))"

definition on_art_loaded :: "app_state \<Rightarrow> pixmap \<Rightarrow> app_state" where
  "on_art_loaded s pm =
     (case pm of
        Image u \<Rightarrow> s\<lparr>label_image := Label_pixmap (Image u)\<rparr>
      | Null_pixmap \<Rightarrow> s\<lparr>label_image := Label_text ''No box art found.''\<rparr>)"

text \<open>A click on "Burn Game": the slot's effects go to the outside world; an exception
  that escapes it ends the process.\<close>

definition burn_clicked :: "app_state \<Rightarrow> world \<Rightarrow> app_state" where
  "burn_clicked s w =
     (case snd (burn_game w (selected_game_path s) (selected_console s)) of
        Inl _ \<Rightarrow> s\<lparr>alive := False\<rparr>
      | Inr _ \<Rightarrow> s)"

text \<open>A click on the gear button: \<open>open_settings\<close> on the process's settings module.\<close>

definition settings_clicked :: "app_state \<Rightarrow> dialog_answer \<Rightarrow> app_state" where
  "settings_clicked s ans =
     (case open_settings (settings_mod s) ans of
        (eff, m, Inl _) \<Rightarrow> s\<lparr>settings_mod := m, alive := False\<rparr>
      | (eff, m, Inr _) \<Rightarrow> s\<lparr>settings_mod := m\<rparr>)"

text \<open>The list of running downloads without its \<open>i\<close>-th entry.\<close>

definition remove_nth :: "nat \<Rightarrow> 'a list \<Rightarrow> 'a list" where
  "remove_nth i xs = take i xs @ drop (Suc i) xs"

text \<open>
  One event of the Qt event loop. A file is picked (the dialog returns a path, "" when
  cancelled); the \<open>i\<close>-th running download finishes and its signal is delivered; the
  enabled burn button is clicked; the gear button is clicked. Nothing happens once the
  process has aborted. The window starts from the module settings.py as shipped.
\<close>

inductive app_step :: "app_state \<Rightarrow> app_state \<Rightarrow> bool" where
  pick: "alive s \<Longrightarrow> app_step s (select_file s p resp)"
| art: "alive s \<Longrightarrow> i < length (running_downloads s) \<Longrightarrow>
        app_step s (on_art_loaded (s\<lparr>running_downloads := remove_nth i (running_downloads s)\<rparr>)
                      (image_download_run (running_downloads s ! i) r))"
| burn: "alive s \<Longrightarrow> burn_enabled s \<Longrightarrow> app_step s (burn_clicked s w)"
| gear: "alive s \<Longrightarrow> app_step s (settings_clicked s ans)"

inductive reachable :: "app_state \<Rightarrow> bool" where
  init: "window_init config token_resp settings_py = (e, Some s) \<Longrightarrow> reachable s"
| step: "reachable s \<Longrightarrow> app_step s t \<Longrightarrow> reachable t"

inductive_cases app_step_cases: "app_step s t"

text \<open>
  What the window keeps true between events: before any selection the burn button is
  disabled and the labels show their initial texts; after one, the selected path is
  non-empty, the burn button is enabled, and the console and title labels describe that
  path.
\<close>

definition app_inv :: "app_state \<Rightarrow> bool" where
  "app_inv s \<longleftrightarrow>
     (case selected_game_path s of
        None \<Rightarrow> \<not> burn_enabled s \<and> selected_console s = None \<and>
                label_console s = ''Detected Console: None'' \<and> label_description s = ''No game selected''
      | Some p \<Rightarrow> p \<noteq> [] \<and> burn_enabled s \<and> selected_console s = Some (detect_console p) \<and>
                label_console s = ''Detected Console: '' @ console_name (detect_console p) \<and>
                label_description s = ''Detected Game Title: '' @ smart_game_name p)"

text \<open>
  A start and searches that exercise the theorems below: a config.json with both keys, a
  token request the endpoint accepts, and IGDB answers whose first game has the cover
  image \<open>i\<close>.
\<close>

definition demo_config :: "py_error + json" where
  "demo_config = Inr (JObj [(''TWITCH_CLIENT_ID'', JStr ''id''), (''TWITCH_CLIENT_SECRET'', JStr ''secret'')])"

definition demo_token_answer :: http_outcome where
  "demo_token_answer =
     Response 200 [] (Inr (JObj [(''access_token'', JStr ''tok''), (''token_type'', JStr ''bearer'')]))"

definition cover_answer :: "string \<Rightarrow> http_outcome" where
  "cover_answer i =
     Response 200 [] (Inr (JArr [JObj [(''cover'', JObj [(''image_id'', JStr i)]), (''name'', JStr i)]]))"

definition demo_start :: app_state where
  "demo_start =
     init_state \<lparr>client_id = JStr ''id'', client_secret = JStr ''secret'', token = JStr ''tok''\<rparr>
       [token_request \<lparr>client_id = JStr ''id'', client_secret = JStr ''secret'', token = JNull\<rparr>]
       settings_py ''background-color: #1e1e1e; color: white;''"

subsection \<open>Lemmas\<close>

lemma load_game_art_frame:
  "selected_game_path (load_game_art s n r) = selected_game_path s \<and>
   selected_console (load_game_art s n r) = selected_console s \<and>
   label_console (load_game_art s n r) = label_console s \<and>
   label_description (load_game_art s n r) = label_description s \<and>
   burn_enabled (load_game_art s n r) = burn_enabled s \<and> alive (load_game_art s n r) = alive s \<and>
   igdb (load_game_art s n r) = igdb s \<and>
   settings_mod (load_game_art s n r) = settings_mod s \<and> style_sheet (load_game_art s n r) = style_sheet s \<and>
   posted (load_game_art s n r) = posted s @ [fst (fetch_cover_url (igdb s) n r)]"
  by (simp add: load_game_art_def Let_def split: prod.split sum.split)

lemma load_game_art_url:
  "snd (fetch_cover_url (igdb s) n r) = Inr u \<Longrightarrow>
   running_downloads (load_game_art s n r) = running_downloads s @ [u] \<and>
   img_thread (load_game_art s n r) = Some u"
  by (cases "fetch_cover_url (igdb s) n r") (simp add: load_game_art_def Let_def)

lemma fst_fetch_cover_url: "fst (fetch_cover_url c n r) = search_request c n"
  by (simp add: fetch_cover_url_def search_game_def split: sum.split option.split)

lemma token_request_token [simp]: "token_request (c\<lparr>token := t\<rparr>) = token_request c"
  by (simp add: token_request_def)

lemma igdb_client_init_requests:
  "igdb_client_init config r = (rqs, Inr c) \<Longrightarrow> set rqs \<subseteq> {token_request c}"
  by (auto simp: igdb_client_init_def get_token_def token_request_def
      split: sum.splits prod.splits http_outcome.splits if_splits)

lemma window_init_Some:
  "window_init config r m = (e, Some s) \<Longrightarrow>
   \<exists>rqs. s = init_state (igdb s) rqs m (style_sheet s) \<and> set rqs \<subseteq> {token_request (igdb s)} \<and>
         apply_theme m = Inr (style_sheet s)"
  by (auto simp: window_init_def init_state_def dest: igdb_client_init_requests split: prod.splits sum.splits)

lemma select_file_fields:
  assumes "p \<noteq> []"
  shows "alive (select_file s p r) = alive s \<and> igdb (select_file s p r) = igdb s \<and>
         settings_mod (select_file s p r) = settings_mod s \<and> style_sheet (select_file s p r) = style_sheet s \<and>
         selected_game_path (select_file s p r) = Some p \<and>
         posted (select_file s p r) = posted s @ [search_request (igdb s) (smart_game_name p)]"
  using assms load_game_art_frame [of _ "smart_game_name p" r]
  by (simp add: select_file_def Let_def fst_fetch_cover_url)

lemma select_file_url:
  assumes "p \<noteq> []" and "snd (fetch_cover_url (igdb s) (smart_game_name p) r) = Inr u"
  shows "running_downloads (select_file s p r) = running_downloads s @ [u] \<and>
         img_thread (select_file s p r) = Some u"
  using assms load_game_art_url [of _ "smart_game_name p" r u] load_game_art_frame
  by (simp add: select_file_def Let_def)

lemma select_file_cancel [simp]: "select_file s [] r = s"
  by (simp add: select_file_def)

lemma on_art_loaded_fields [simp]:
  "running_downloads (on_art_loaded s pm) = running_downloads s"
  "img_thread (on_art_loaded s pm) = img_thread s"
  "alive (on_art_loaded s pm) = alive s"
  "selected_game_path (on_art_loaded s pm) = selected_game_path s"
  "posted (on_art_loaded s pm) = posted s"
  "igdb (on_art_loaded s pm) = igdb s"
  "settings_mod (on_art_loaded s pm) = settings_mod s"
  "style_sheet (on_art_loaded s pm) = style_sheet s"
  by (simp_all add: on_art_loaded_def split: pixmap.split)

lemma burn_clicked_fields [simp]:
  "posted (burn_clicked s w) = posted s" "igdb (burn_clicked s w) = igdb s"
  "settings_mod (burn_clicked s w) = settings_mod s" "style_sheet (burn_clicked s w) = style_sheet s"
  by (simp_all add: burn_clicked_def split: sum.split)

lemma settings_clicked_fields [simp]:
  "posted (settings_clicked s ans) = posted s" "igdb (settings_clicked s ans) = igdb s"
  "selected_game_path (settings_clicked s ans) = selected_game_path s"
  "selected_console (settings_clicked s ans) = selected_console s"
  "label_console (settings_clicked s ans) = label_console s"
  "label_description (settings_clicked s ans) = label_description s"
  "burn_enabled (settings_clicked s ans) = burn_enabled s"
  "style_sheet (settings_clicked s ans) = style_sheet s"
  by (simp_all add: settings_clicked_def split: prod.split sum.split)

lemma settings_clicked_shipped:
  "settings_mod s = settings_py \<Longrightarrow> settings_clicked s ans = s\<lparr>alive := False\<rparr>"
  using open_settings_no_font [of settings_py "''dark''" ans] by (simp add: settings_clicked_def)

lemma app_inv_init: "app_inv (init_state c rqs m sheet)"
  by (simp add: app_inv_def init_state_def)

lemma app_inv_select_file: "app_inv s \<Longrightarrow> app_inv (select_file s p r)"
  using load_game_art_frame by (simp add: select_file_def app_inv_def Let_def)

lemma app_inv_on_art_loaded: "app_inv s \<Longrightarrow> app_inv (on_art_loaded (s\<lparr>running_downloads := ds\<rparr>) pm)"
  by (cases pm; cases "selected_game_path s") (simp_all add: on_art_loaded_def app_inv_def)

lemma app_inv_burn_clicked: "app_inv s \<Longrightarrow> app_inv (burn_clicked s w)"
  by (cases "snd (burn_game w (selected_game_path s) (selected_console s))";
      cases "selected_game_path s") (simp_all add: burn_clicked_def app_inv_def)

lemma app_inv_settings_clicked: "app_inv s \<Longrightarrow> app_inv (settings_clicked s ans)"
  by (cases "selected_game_path s") (simp_all add: app_inv_def)

lemma app_step_inv: "app_step s t \<Longrightarrow> app_inv s \<Longrightarrow> app_inv t"
  by (induction rule: app_step.induct)
     (simp_all add: app_inv_select_file app_inv_on_art_loaded app_inv_burn_clicked app_inv_settings_clicked)

lemma window_init_posted:
  assumes "window_init config r m = (e, Some s)"
  shows "set (posted s) \<subseteq> {token_request (igdb s)} \<and> app_inv s \<and> settings_mod s = m \<and>
         apply_theme m = Inr (style_sheet s)"
proof -
  obtain rqs where s: "s = init_state (igdb s) rqs m (style_sheet s)"
    and sub: "set rqs \<subseteq> {token_request (igdb s)}" and th: "apply_theme m = Inr (style_sheet s)"
    using window_init_Some [OF assms] by blast
  have "posted s = rqs" "settings_mod s = m"
    using arg_cong [OF s, of posted] arg_cong [OF s, of settings_mod] by (simp_all add: init_state_def)
  with sub th show ?thesis using app_inv_init [of "igdb s" rqs m "style_sheet s"] s by simp
qed

text \<open>The settings module never changes and the window keeps the dark style sheet.\<close>

lemma reachable_settings:
  "reachable s \<Longrightarrow> settings_mod s = settings_py \<and> style_sheet s = ''background-color: #1e1e1e; color: white;''"
proof (induction rule: reachable.induct)
  case (init config token_resp e s)
  then show ?case using window_init_posted [OF init(1)] by (simp add: apply_theme_def module_getattr_def)
next
  case (step s t)
  from step.hyps(2) show ?case
  proof (cases rule: app_step.cases)
    case (pick p r)
    then show ?thesis using step.IH select_file_fields [of p s r] by (cases "p = []") auto
  next
    case (gear ans)
    then show ?thesis using step.IH settings_clicked_shipped [of s ans] by simp
  qed (use step.IH in auto)
qed

lemma reachable_inv: "reachable s \<Longrightarrow> app_inv s"
proof (induction rule: reachable.induct)
  case (init config token_resp e s)
  then show ?case using window_init_posted by blast
qed (blast intro: app_step_inv)

text \<open>Every request the window has posted is the token request of its client or a search
  for the cleaned title of some file.\<close>

lemma reachable_posted:
  "reachable s \<Longrightarrow> rq \<in> set (posted s) \<Longrightarrow>
   rq = token_request (igdb s) \<or> (\<exists>p. rq = search_request (igdb s) (smart_game_name p))"
proof (induction arbitrary: rq rule: reachable.induct)
  case (init config token_resp e s)
  then show ?case using window_init_posted [OF init(1)] by auto
next
  case (step s t)
  from step.hyps(2) show ?case
  proof (cases rule: app_step.cases)
    case (pick p r)
    then show ?thesis using step.IH step.prems select_file_fields [of p s r]
      by (cases "p = []") auto
  qed (use step.IH step.prems in auto)
qed

lemma reachable_pick:
  "reachable s \<Longrightarrow> alive s \<Longrightarrow> reachable (select_file s p r)"
  by (blast intro: reachable.step app_step.pick)

lemma reachable_art:
  "reachable s \<Longrightarrow> alive s \<Longrightarrow> i < length (running_downloads s) \<Longrightarrow>
   reachable (on_art_loaded (s\<lparr>running_downloads := remove_nth i (running_downloads s)\<rparr>)
                (image_download_run (running_downloads s ! i) r))"
  by (blast intro: reachable.step app_step.art)

lemma reachable_demo_start: "reachable demo_start"
  by (rule reachable.init [of demo_config demo_token_answer "[]"])
     (simp add: window_init_def igdb_client_init_def load_config_def get_token_def demo_config_def
        apply_theme_def module_getattr_def
        demo_token_answer_def demo_start_def py_get_def py_getitem_def response_ok_def response_json_def)

lemma demo_start_fields [simp]:
  "alive demo_start" "running_downloads demo_start = []"
  "igdb demo_start = \<lparr>client_id = JStr ''id'', client_secret = JStr ''secret'', token = JStr ''tok''\<rparr>"
  by (simp_all add: demo_start_def init_state_def)

lemma fetch_cover_answer:
  "i \<noteq> [] \<Longrightarrow> snd (fetch_cover_url c n (cover_answer i)) = Inr (get_cover_url (JStr i) ''cover_big'')"
  by (simp add: cover_answer_def fetch_cover_url_def search_game_def response_ok_def response_json_def
      first_result_def py_index0_def py_get_def)

subsection \<open>Properties\<close>

text \<open>
  C6. In every state the window can reach, once a file has been selected the console
  label names the console \<open>detect_console\<close> assigns to that file and the description
  label shows the title \<open>smart_game_name\<close> computes from it: no sequence of picks,
  cancelled picks, finished downloads and burns leaves a label describing another file.
\<close>

theorem labels_describe_selection:
  assumes "reachable s" and "selected_game_path s = Some p"
  shows "label_console s = ''Detected Console: '' @ console_name (detect_console p) \<and>
         label_description s = ''Detected Game Title: '' @ smart_game_name p"
  using reachable_inv [OF assms(1)] assms(2) by (simp add: app_inv_def)

theorem labels_describe_selection_witness:
  "label_console (select_file demo_start ''game.iso'' (Conn_error ''offline'')) = ''Detected Console: PC''"
proof -
  have "reachable (select_file demo_start ''game.iso'' (Conn_error ''offline''))"
    by (rule reachable_pick) (simp_all add: reachable_demo_start)
  moreover have "selected_game_path (select_file demo_start ''game.iso'' (Conn_error ''offline'')) =
                   Some ''game.iso''"
    by (simp add: select_file_fields)
  ultimately show ?thesis
    using labels_describe_selection by (simp add: detect_console_def py_simps)
qed

text \<open>
  C7. The burn button is enabled only in states where a non-empty file is selected and
  the selected console is the one \<open>detect_console\<close> assigns to it. So every click that
  reaches \<open>burn_game\<close> carries a real selection, and its "No Game" warning
  (main.py 326-328) is unreachable from the window.
\<close>

theorem burn_enabled_has_selection:
  assumes "reachable s" and "burn_enabled s"
  shows "\<exists>p. selected_game_path s = Some p \<and> p \<noteq> [] \<and> selected_console s = Some (detect_console p)"
  using reachable_inv [OF assms(1)] assms(2) by (auto simp: app_inv_def split: option.splits)

theorem burn_enabled_has_selection_witness:
  "burn_enabled (select_file demo_start ''game.iso'' (Conn_error ''offline'')) \<and>
   selected_console (select_file demo_start ''game.iso'' (Conn_error ''offline'')) = Some PC"
proof -
  let ?s = "select_file demo_start ''game.iso'' (Conn_error ''offline'')"
  have r: "reachable ?s"
    by (rule reachable_pick) (simp_all add: reachable_demo_start)
  have b: "burn_enabled ?s"
    by (simp add: select_file_def load_game_art_def Let_def split: prod.split sum.split)
  obtain p where p: "selected_game_path ?s = Some p" and c: "selected_console ?s = Some (detect_console p)"
    using burn_enabled_has_selection [OF r b] by blast
  have "p = ''game.iso''" using p by (simp add: select_file_fields)
  with b c show ?thesis by (simp add: detect_console_def py_simps)
qed

text \<open>
  C8. The display can show the cover of a file that is no longer selected. Picking
  "a.iso" and then "b.iso" starts two downloads; if the later one finishes first and the
  earlier one last, the window ends with "b.iso" selected, \<open>img_thread\<close> downloading
  b's cover, and a's cover on screen. The ordering the specification asks for (the most
  recently started fetch is the one displayed, section 5) does not hold.
\<close>

theorem stale_cover_displayed:
  "\<exists>s. reachable s \<and> selected_game_path s = Some ''b.iso'' \<and>
       img_thread s = Some (get_cover_url (JStr ''b'') ''cover_big'') \<and>
       label_image s = Label_pixmap (Image (get_cover_url (JStr ''a'') ''cover_big''))"
proof -
  let ?a = "get_cover_url (JStr ''a'') ''cover_big''" and ?b = "get_cover_url (JStr ''b'') ''cover_big''"
  define s1 where "s1 = select_file demo_start ''a.iso'' (cover_answer ''a'')"
  define s2 where "s2 = select_file s1 ''b.iso'' (cover_answer ''b'')"
  define s3 where "s3 = on_art_loaded (s2\<lparr>running_downloads := remove_nth 1 (running_downloads s2)\<rparr>)
                          (image_download_run (running_downloads s2 ! 1) (Get_body True))"
  define s4 where "s4 = on_art_loaded (s3\<lparr>running_downloads := remove_nth 0 (running_downloads s3)\<rparr>)
                          (image_download_run (running_downloads s3 ! 0) (Get_body True))"
  have f1: "running_downloads s1 = [?a] \<and> alive s1 \<and> igdb s1 = igdb demo_start"
    using select_file_url [of "''a.iso''" demo_start] select_file_fields [of "''a.iso''" demo_start]
    by (simp add: s1_def fetch_cover_answer)
  have f2: "running_downloads s2 = [?a, ?b] \<and> alive s2 \<and>
            img_thread s2 = Some ?b \<and> selected_game_path s2 = Some ''b.iso''"
    using select_file_url [of "''b.iso''" s1] select_file_fields [of "''b.iso''" s1] f1
    by (simp add: s2_def fetch_cover_answer)
  have f3: "running_downloads s3 = [?a] \<and> alive s3"
    using f2 by (simp add: s3_def remove_nth_def)
  have r1: "reachable s1"
    unfolding s1_def by (rule reachable_pick) (simp_all add: reachable_demo_start)
  have r2: "reachable s2"
    unfolding s2_def using r1 f1 by (intro reachable_pick) simp_all
  have r3: "reachable s3"
    unfolding s3_def using r2 f2 by (intro reachable_art) simp_all
  have r4: "reachable s4"
    unfolding s4_def using r3 f3 by (intro reachable_art) simp_all
  have "selected_game_path s4 = Some ''b.iso'' \<and> img_thread s4 = Some ?b \<and>
        label_image s4 = Label_pixmap (Image ?a)"
    using f2 f3 by (simp add: s3_def s4_def image_download_run_def on_art_loaded_def remove_nth_def)
  with r4 show ?thesis by blast
qed

text \<open>
  C9. In every state the window can reach, the settings module is still settings.py as
  shipped, the window has the dark style sheet, and a click on the gear button ends the
  process (the \<open>AttributeError\<close> of \<open>SettingsDialog\<close> escapes the slot) and changes
  nothing else: the settings can never be changed from the window.
\<close>

theorem gear_click_aborts:
  assumes "reachable s"
  shows "settings_mod s = settings_py \<and> style_sheet s = ''background-color: #1e1e1e; color: white;'' \<and>
         settings_clicked s ans = s\<lparr>alive := False\<rparr>"
  using reachable_settings [OF assms] settings_clicked_shipped [of s ans] by simp

theorem gear_click_aborts_witness:
  "\<not> alive (settings_clicked demo_start (Dlg_ok 0 3))"
  using gear_click_aborts [OF reachable_demo_start, of "Dlg_ok 0 3"] by simp


end
