(* ===== verification/Spec2Isabelle.thy ===== *)
theory Spec2Isabelle
  imports App
begin

text \<open>
  \<^bold>\<open>GameDiscBurner: a verification development.\<close>

  The program (src/main.py, src/settings.py) is a PyQt6 desktop tool. The user picks a
  disc image; the window cleans the file name into a game title
  (\<open>GameDiscBurner.smart_game_name\<close>), classifies the console from the path
  (\<open>detect_console\<close>), looks the title up on the IGDB web API
  (\<open>IGDBClient.search_game\<close>, \<open>fetch_cover_url\<close>) and downloads the cover on a
  worker thread (\<open>ImageDownloadThread\<close>, \<open>on_art_loaded\<close>). On "Burn Game"
  (\<open>burn_game\<close>) it enumerates the optical drives (\<open>find_dvd_drives\<close>), lets the
  user confirm one, runs the console's payload policy (\<open>apply_payload_if_needed\<close>,
  which may run the ESR patcher), and launches ImgBurn with a fixed argument list.

  \<^bold>\<open>Library layout.\<close>
  \<^item> \<open>Prelude\<close>: the Python string built-ins the code calls (\<open>str.lower\<close> on
    Latin-1, \<open>str.endswith\<close>, \<open>in\<close>, \<open>str.isspace\<close>, character classes),
    executable, with the collection \<open>py_simps\<close> that evaluates them on literals and their
    relation to \<open>suffix\<close>/\<open>sublist\<close>.
  \<^item> \<open>Classifier\<close>: \<open>detect_console\<close> (main.py 198-217) over the datatype
    \<open>console\<close> of labels, and the ordered rule list of specification section 9 with
    \<open>first_match\<close>. Lemmas: the code refines the rule list, whose last rules are shadowed
    by the generic ".iso" rule (dead branch); case-insensitivity; the exact sets of paths
    labelled PC and Unknown; no path is ever labelled PS3, PS4, PS5 or Xbox.
  \<^item> \<open>Drives\<close>: \<open>find_dvd_drives\<close> (main.py 258-268). The DWORD of
    \<open>GetLogicalDrives\<close> is a \<open>32 word\<close>, read through ctypes' default \<open>c_int\<close>
    restype as \<open>sint\<close>; the loop over 26 letters with \<open>bitmask >>= 1\<close> is
    \<open>scan_drives\<close> on \<open>int\<close> with \<open>drop_bit\<close>; \<open>GetDriveTypeW\<close> is a
    parameter. Lemmas: equivalence with a filter over the bit positions 0..25, order,
    distinctness and the bound 26, independence from bits 26-31 (the sign bit included).
  \<^item> \<open>PyRuntime\<close>: the outside world of the process as a record \<open>world\<close> (current
    directory, files and directories, drive answers, the user's reply to each question
    dialog keyed by its title, the outcome of each process run), the effects the program
    makes (\<open>Dialog\<close>, \<open>Run_process\<close> for \<open>subprocess.run\<close>, \<open>Spawn_process\<close> for
    \<open>subprocess.Popen\<close>), \<open>ntpath.join\<close>, \<open>repr\<close> of strings and lists, and
    \<open>subprocess.run(check=True)\<close> with the text of \<open>CalledProcessError\<close>.
  \<^item> \<open>Payload\<close>: \<open>apply_payload_if_needed\<close> (main.py 284-324), every branch, as
    effects plus the \<open>(success, message)\<close> pair. Lemmas: each branch's result; failure
    exactly when the PS2 patcher is missing or fails, or an Xbox payload folder is missing;
    the only process it runs is the ESR patcher, on the game, after the user's Yes.
  \<^item> \<open>Burn\<close>: \<open>burn_game\<close> (main.py 325-379) in its two stages (\<open>select_drive\<close>,
    \<open>burn_with_drive\<close>), \<open>manual_drive_selection\<close> (270-282) and
    \<open>show_console_instruction\<close> (381-427); the result is the effect list and
    \<open>Inl\<close> of the exception that escapes the slot. Lemmas: the exact condition under which
    ImgBurn is spawned and its argument list (safety and its converse), and the
    \<open>NameError\<close> of the undefined \<open>DriveSelectionDialog\<close> whenever the single-drive
    shortcut is not taken.
  \<^item> \<open>Normalizer\<close>: \<open>smart_game_name\<close> (main.py 189-196): \<open>ntpath.basename\<close> with
    its \<open>splitroot\<close> cases, \<open>splitext\<close>, the two group substitutions as left-to-right
    scans, the character and whitespace substitutions (\<open>collapse_ws\<close>, terminating by
    the length measure), \<open>strip\<close> and ASCII \<open>str.title\<close>. Lemmas: the output is a
    normalized title (alphanumerics and single inner spaces, no edge space, title case)
    with no group brackets left; idempotence through a fixed-point lemma on normalized
    titles.
  \<^item> \<open>Metadata\<close>: \<open>IGDBClient\<close> (main.py 21-65) and \<open>fetch_cover_url\<close>
    (244-248). Decoded JSON is the datatype \<open>json\<close> of the Python values \<open>json\<close>
    returns; \<open>dict.get\<close>, subscription, truthiness and \<open>str\<close> follow Python on each type,
    so a malformed answer raises what Python raises. Each HTTP answer is an
    \<open>http_outcome\<close> parameter; the request the code builds is returned with the result.
    Lemmas: when \<open>search_game\<close> raises and when it returns nothing, the cover URL of a
    well-formed answer and its read-back, and when \<open>IGDBClient()\<close> succeeds; a
    quote-free title reads back from the query body it is interpolated into.
  \<^item> \<open>Settings\<close>: the module settings.py as its namespace (\<open>settings_py\<close>), its
    \<open>get_theme\<close>, \<open>SettingsDialog\<close> with its combo boxes and \<open>save_settings\<close>,
    \<open>open_settings\<close> and \<open>apply_theme\<close> (main.py 84-114, 180-188). Lemmas: the dialog
    raises before it appears because settings.py has no \<open>FONT_SIZE\<close>; \<open>save_settings\<close>
    assigns before it fails on the missing \<open>save\<close>; the palettes \<open>get_theme\<close> returns;
    the load/save round trip of the dialog where the module has what it needs.
  \<^item> \<open>App\<close>: the window as a state machine: the record \<open>app_state\<close>, the start
    \<open>window_init\<close> (\<open>__init__\<close> with \<open>IGDBClient()\<close>, or the "IGDB Init Failed" exit),
    the handlers \<open>select_file\<close>, \<open>load_game_art\<close> (which calls \<open>fetch_cover_url\<close>
    on the cleaned title), \<open>on_art_loaded\<close>, \<open>ImageDownloadThread.run\<close>, the burn
    click and the gear click as functions, the event loop as the inductive relation
    \<open>app_step\<close> (download threads finish in any order), \<open>reachable\<close> states by rule
    induction. Lemmas: the invariant \<open>app_inv\<close> (labels and burn button agree with the
    selection), the requests posted, the settings module that never changes, the gear click
    that always aborts, and the stale-cover race as an explicit reachable trace.
  \<^item> This theory: the properties that span components: the well-formedness of every
    search the window posts (\<open>Normalizer\<close>, \<open>Metadata\<close> and \<open>App\<close> together),
    and the burn click that ends the process when manual drive selection is reached
    (\<open>Burn\<close>, \<open>Drives\<close> and \<open>App\<close>).

  \<^bold>\<open>Modelling choices.\<close> The model has no fuel and no partial functions: every
  loop of the code is bounded (26 drive letters, one pass over a string), so each is a
  total function, terminating structurally or by the length measure. Machine integers
  appear only in the drive mask, kept at 32 bits. Dialog replies and OS answers are
  fields of \<open>world\<close>, so a theorem quantifies over every user and every machine.
  An exception is \<open>Inl\<close> of \<open>py_error\<close>; PyQt6 aborts the process when one escapes a
  slot, which \<open>App\<close> records as \<open>alive = False\<close>.

  \<^bold>\<open>Not modelled.\<close> The Qt widget layout and styling, and \<open>main\<close>'s
  \<open>QApplication\<close> and \<open>exec\<close> beyond the events of \<open>app_step\<close>; the bytes of HTTP
  bodies (the model starts from what \<open>response.json()\<close> returns, JSON floats excluded);
  time: request timeouts, how long the search blocks the UI thread, the expiry of the IGDB
  token (a failed request after expiry is one more \<open>http_outcome\<close>); the destruction of a
  superseded \<open>QThread\<close> object, whose behaviour depends on the Python garbage collector.
\<close>

subsection \<open>Properties that span components\<close>

lemma title_char_not_dquote:
  "is_ascii_alnum c \<or> c = CHR '' '' \<Longrightarrow> c \<noteq> dquote"
  by (auto simp: char_class_defs dquote_def)

lemma smart_game_name_no_dquote: "dquote \<notin> set (smart_game_name p)"
  using smart_game_name_shape [of p] title_char_not_dquote
  by (auto simp: normalized_title_def list_all_iff)

text \<open>
  C11. Every search the window posts to IGDB is well formed: its body reads back as exactly
  the title it was built from, and that title is a normalized title. The title is
  interpolated into the query without escaping (main.py 52); the query cannot be broken
  because \<open>smart_game_name\<close> (main.py 189-196) leaves no double quote in it.
\<close>

theorem posted_searches_wellformed:
  assumes "reachable s" and "rq \<in> set (posted s)" and "req_url rq = ''https://api.igdb.com/v4/games''"
  shows "\<exists>t. req_data rq = igdb_query t \<and> parse_search_query (req_data rq) = Some t \<and> normalized_title t"
proof -
  have "req_url (token_request (igdb s)) \<noteq> ''https://api.igdb.com/v4/games''"
    by (simp add: token_request_def)
  then obtain p where "rq = search_request (igdb s) (smart_game_name p)"
    using reachable_posted [OF assms(1,2)] assms(3) by auto
  then show ?thesis
    using smart_game_name_shape [of p] igdb_query_parses [OF smart_game_name_no_dquote [of p]]
    by (auto simp: search_request_def)
qed

theorem posted_searches_wellformed_witness:
  "parse_search_query (req_data (search_request (igdb demo_start) (smart_game_name ''Halo.iso''))) =
     Some (smart_game_name ''Halo.iso'')"
proof -
  let ?s = "select_file demo_start ''Halo.iso'' (cover_answer ''co1'')"
  let ?rq = "search_request (igdb demo_start) (smart_game_name ''Halo.iso'')"
  have r: "reachable ?s" by (rule reachable_pick) (simp_all add: reachable_demo_start)
  have m: "?rq \<in> set (posted ?s)" by (simp add: select_file_fields)
  have u: "req_url ?rq = ''https://api.igdb.com/v4/games''" by (simp add: search_request_def)
  obtain t where "req_data ?rq = igdb_query t" and "parse_search_query (req_data ?rq) = Some t"
    using posted_searches_wellformed [OF r m u] by blast
  moreover have "req_data ?rq = igdb_query (smart_game_name ''Halo.iso'')"
    by (simp add: search_request_def)
  ultimately show ?thesis by (simp add: igdb_query_def)
qed


text \<open>
  C10. From the window, manual drive selection ends the process: in a reachable state of
  a live process with the burn button enabled, on a machine with two or more optical
  drives, or one the user declines, a click on "Burn Game" is a step of the window that
  leaves the process aborted, after which no event is handled.
\<close>

theorem burn_click_manual_aborts:
  assumes "reachable s" and "alive s" and "burn_enabled s"
    and "2 \<le> length (find_dvd_drives (logical_drives w) (drive_type w)) \<or>
         (length (find_dvd_drives (logical_drives w) (drive_type w)) = 1 \<and> \<not> answers w ''Use Detected Drive'')"
  shows "app_step s (burn_clicked s w) \<and> \<not> alive (burn_clicked s w) \<and> (\<forall>t. \<not> app_step (burn_clicked s w) t)"
proof -
  obtain p where p: "selected_game_path s = Some p" "p \<noteq> []"
    using reachable_inv [OF assms(1)] assms(3) by (auto simp: app_inv_def split: option.splits)
  have "\<not> (length (find_dvd_drives (logical_drives w) (drive_type w)) = 1 \<and> answers w ''Use Detected Drive'')"
    and "find_dvd_drives (logical_drives w) (drive_type w) \<noteq> []"
    using assms(4) by auto
  then obtain e where "burn_game w (Some p) (selected_console s) = (e, Inl (NameError ''DriveSelectionDialog''))"
    using burn_game_manual [OF p(2)] by blast
  then have dead: "\<not> alive (burn_clicked s w)"
    using p(1) by (simp add: burn_clicked_def)
  moreover have "app_step s (burn_clicked s w)"
    using assms(2,3) by (rule app_step.burn)
  moreover have "\<not> app_step (burn_clicked s w) t" for t
    using dead by (auto elim: app_step.cases)
  ultimately show ?thesis by blast
qed

theorem burn_click_manual_aborts_witness:
  "\<not> alive (burn_clicked (select_file demo_start ''game.iso'' (Conn_error ''offline'')) two_drive_world)"
proof -
  let ?s = "select_file demo_start ''game.iso'' (Conn_error ''offline'')"
  have r: "reachable ?s" by (rule reachable_pick) (simp_all add: reachable_demo_start)
  have a: "alive ?s" by (simp add: select_file_fields)
  have b: "burn_enabled ?s" by (simp add: select_file_def load_game_art_def Let_def split: prod.split sum.split)
  show ?thesis
    using burn_click_manual_aborts [OF r a b, of two_drive_world] two_drive_world_drives by simp
qed

end
